theory Spec2Isabelle
  imports Main "HOL-Library.Sublist"
begin

section \<open>Python values and exceptions\<close>

text \<open>
  A Python \<open>str\<close> is a \<open>string\<close>: one \<open>char\<close> per code point, for the code points below 256.
  The values that \<open>json.loads\<close> builds, and that therefore flow through the handler as
  \<open>user_summary\<close> and \<open>response_text\<close>, are the values of \<open>pyval\<close>; a \<open>dict\<close> is the list of its
  items, read with \<open>map_of\<close>. A float is kept as its literal. \<open>json.loads\<close> decodes the escapes
  of a text, so from a text of narrow characters it can build a \<open>str\<close> that holds any code
  point, a lone surrogate among them: \<open>PStr\<close> is a \<open>str\<close> whose code points are all below 256,
  \<open>PUni\<close> is a \<open>str\<close> that holds a code point of 256 or more, given by the list of its code
  points.
\<close>

datatype pyval =
    PNone
  | PBool bool
  | PInt int
  | PFloat string
  | PStr string
  | PUni "nat list"
  | PList "pyval list"
  | PDict "(string \<times> pyval) list"

text \<open>
  The exceptions that the source names in an \<open>except\<close> clause, those that its own expressions
  raise, and \<open>OtherError\<close> for every other subclass of \<open>Exception\<close> that a library call raises.
\<close>

datatype py_exn =
    ValueError
  | UnknownValueError
  | JSONDecodeError
  | TypeError
  | AttributeError
  | IndexError
  | KeyError
  | OtherError string

text \<open>\<open>json.JSONDecodeError\<close> is a subclass of \<open>ValueError\<close>.\<close>

fun is_ValueError :: "py_exn \<Rightarrow> bool" where
  "is_ValueError ValueError = True"
| "is_ValueError JSONDecodeError = True"
| "is_ValueError _ = False"

text \<open>The truth value of an \<open>Optional[str]\<close>: \<open>None\<close> and the empty string are false.\<close>

fun truthy :: "string option \<Rightarrow> bool" where
  "truthy None = False"
| "truthy (Some s) = (s \<noteq> [])"

section \<open>Session management\<close>

text \<open>
  A history entry is the dict \<open>{"role": r, "parts": [{"text": t}]}\<close>; a session is the dict
  \<open>{"history": [...], "user_profile": {"name": .., "email": ..}, "created_at": ..}\<close>.
\<close>

record part =
  ptext :: pyval

record turn =
  role :: string
  parts :: "part list"

record profile =
  name :: "string option"
  email :: "string option"

record session =
  history :: "turn list"
  user_profile :: profile
  created_at :: string

record SessionManager =
  sessions :: "string \<rightharpoonup> session"

text \<open>
  \<open>get_session\<close> returns the session stored under the identifier, creating it first when the
  identifier is new. The argument \<open>uid\<close> is what \<open>str(uuid.uuid4())\<close> yields if the session has
  to be created. The caller receives the stored dict itself, so the mutators below write their
  change back under the same identifier.
\<close>

definition get_session :: "string \<Rightarrow> string \<Rightarrow> SessionManager \<Rightarrow> session \<times> SessionManager" where
  "get_session uid session_id sm =
     (case sessions sm session_id of
        None \<Rightarrow>
          (let s = \<lparr>history = [],
                    user_profile = \<lparr>name = None, email = None\<rparr>,
                    created_at = uid\<rparr>
           in (s, sm\<lparr>sessions := (sessions sm)(session_id \<mapsto> s)\<rparr>))
      | Some s \<Rightarrow> (s, sm))"

definition update_history ::
  "string \<Rightarrow> string \<Rightarrow> pyval \<Rightarrow> pyval \<Rightarrow> SessionManager \<Rightarrow> SessionManager" where
  "update_history uid session_id user_text model_text sm =
     (let (sess, sm1) = get_session uid session_id sm;
          sess1 = sess\<lparr>history := history sess @ [\<lparr>role = ''user'', parts = [\<lparr>ptext = user_text\<rparr>]\<rparr>]\<rparr>;
          sess2 = sess1\<lparr>history := history sess1 @ [\<lparr>role = ''model'', parts = [\<lparr>ptext = model_text\<rparr>]\<rparr>]\<rparr>
      in sm1\<lparr>sessions := (sessions sm1)(session_id \<mapsto> sess2)\<rparr>)"

definition update_profile ::
  "string \<Rightarrow> string \<Rightarrow> string option \<Rightarrow> string option \<Rightarrow> SessionManager \<Rightarrow> SessionManager" where
  "update_profile uid session_id nm em sm =
     (let (sess, sm1) = get_session uid session_id sm;
          sess1 = (if truthy nm then sess\<lparr>user_profile := (user_profile sess)\<lparr>name := nm\<rparr>\<rparr> else sess);
          sess2 = (if truthy em then sess1\<lparr>user_profile := (user_profile sess1)\<lparr>email := em\<rparr>\<rparr> else sess1)
      in sm1\<lparr>sessions := (sessions sm1)(session_id \<mapsto> sess2)\<rparr>)"

definition clear :: "string \<Rightarrow> SessionManager \<Rightarrow> SessionManager" where
  "clear session_id sm =
     (if session_id \<in> dom (sessions sm)
      then sm\<lparr>sessions := (sessions sm)(session_id := None)\<rparr>
      else sm)"

text \<open>What an observer reads from the store without creating anything.\<close>

definition history_of :: "SessionManager \<Rightarrow> string \<Rightarrow> turn list" where
  "history_of sm session_id = (case sessions sm session_id of None \<Rightarrow> [] | Some s \<Rightarrow> history s)"

definition name_of :: "SessionManager \<Rightarrow> string \<Rightarrow> string option" where
  "name_of sm session_id =
     (case sessions sm session_id of None \<Rightarrow> None | Some s \<Rightarrow> name (user_profile s))"

definition email_of :: "SessionManager \<Rightarrow> string \<Rightarrow> string option" where
  "email_of sm session_id =
     (case sessions sm session_id of None \<Rightarrow> None | Some s \<Rightarrow> email (user_profile s))"

section \<open>Strings\<close>

text \<open>
  \<open>needle in haystack\<close> on strings, written \<open>str_contains haystack needle\<close>.
\<close>

fun str_contains :: "string \<Rightarrow> string \<Rightarrow> bool" where
  "str_contains [] needle = (needle = [])"
| "str_contains (c # cs) needle = (prefix needle (c # cs) \<or> str_contains cs needle)"

text \<open>
  \<open>str.isspace\<close> of one character, for the code points below 256: tab to carriage return,
  the four separators 0x1C to 0x1F, the space, NEL and the no-break space.
\<close>

definition py_isspace :: "char \<Rightarrow> bool" where
  "py_isspace c =
     (let n = (of_char c :: nat)
      in (9 \<le> n \<and> n \<le> 13) \<or> (28 \<le> n \<and> n \<le> 32) \<or> n = 133 \<or> n = 160)"

text \<open>\<open>s.strip()\<close>: leading and trailing whitespace removed.\<close>

definition py_strip :: "string \<Rightarrow> string" where
  "py_strip s = rev (dropWhile py_isspace (rev (dropWhile py_isspace s)))"

text \<open>
  \<open>re.sub(r'```json|```', '', s)\<close>: scanning from the left, at each position the first
  alternative that matches is removed and the scan resumes behind the match; a character where
  neither matches is kept.
\<close>

fun sub_fences :: "string \<Rightarrow> string" where
  "sub_fences [] = []"
| "sub_fences (c # cs) =
     (if prefix ''```json'' (c # cs) then sub_fences (drop 7 (c # cs))
      else if prefix ''```'' (c # cs) then sub_fences (drop 3 (c # cs))
      else c # sub_fences cs)"

text \<open>\<open>xs[-6:]\<close>: the slice starts at \<open>max(len(xs) - 6, 0)\<close>.\<close>

definition last_six :: "'a list \<Rightarrow> 'a list" where
  "last_six xs = drop (nat (max 0 (int (length xs) - 6))) xs"

section \<open>The outside world\<close>

text \<open>
  What is sent to the reasoning service: the system instruction is a fixed template around
  three interpolated values, and a \<open>types.Content\<close> has a role and a list of parts.
\<close>

record instruction =
  who_you_are :: string
  detailed_profile :: string
  speaking_with :: string

record content =
  crole :: string
  cparts :: "part list"

text \<open>
  The calls to the decoder and to the remote services, in the order in which they are begun,
  whether they then succeed or raise: \<open>Transcode src dst\<close> is \<open>AudioSegment.from_file(src)\<close>
  followed by \<open>export(dst)\<close>, \<open>Generate i cs\<close> is \<open>client.models.generate_content\<close> with that
  instruction and those contents, \<open>Speak t v p\<close> is \<open>edge_tts.Communicate(t, v)\<close> followed by
  \<open>save(p)\<close>.
\<close>

datatype call =
    Transcode string string
  | Generate instruction "content list"
  | Speak pyval string string

text \<open>
  The libraries and remote services are not code of the repository: each call site reads its
  outcome from a field of \<open>services\<close>, an exception as \<open>Inl\<close> (or \<open>Some\<close> where the call returns
  nothing).
  \<^item> \<open>input_temp\<close>, \<open>error_temp\<close>: \<open>NamedTemporaryFile(delete=False, suffix=s)\<close> in the handler
    and in \<open>generate_error_audio\<close>; the name it picks is the field's value followed by \<open>s\<close>.
  \<^item> \<open>copy_upload\<close>: \<open>shutil.copyfileobj(file.file, tmp)\<close>.
  \<^item> \<open>unlink_fails p\<close>: \<open>Path(p).unlink()\<close> raises.
  \<^item> \<open>uuid4 k\<close>: \<open>str(uuid.uuid4())\<close> at the \<open>k\<close>-th place of the handler that may draw one.
  \<^item> \<open>direct p\<close>: the fast path of \<open>transcribe_audio\<close> on \<open>p\<close> (\<open>sr.AudioFile\<close>, \<open>record\<close>,
    \<open>recognize_google\<close>); \<open>convert src dst\<close>: \<open>from_file\<close> and \<open>export\<close>; \<open>converted p\<close>: the
    same three recognition calls on the exported file.
  \<^item> \<open>part_from_text\<close>: \<open>types.Part.from_text\<close>.
  \<^item> \<open>client\<close>: the module's \<open>client\<close>, \<open>None\<close> without an API key; applied, it is
    \<open>generate_content(...)\<close> followed by \<open>.text\<close>, which is a \<open>str\<close> or \<open>None\<close>.
  \<^item> \<open>json_loads\<close>: \<open>json.loads\<close>; the keys of a dict it returns are distinct.
  \<^item> \<open>speak t p\<close>: \<open>edge_tts.Communicate(t, VOICE)\<close> and \<open>save(p)\<close> for the reply;
    \<open>speak_apology\<close>: the same two calls in \<open>generate_error_audio\<close>. A synthesis that raises
    is taken to leave no file of its own behind.
\<close>

record services =
  input_temp :: "py_exn + string"
  error_temp :: "py_exn + string"
  copy_upload :: "py_exn option"
  unlink_fails :: "string \<Rightarrow> bool"
  uuid4 :: "nat \<Rightarrow> string"
  direct :: "string \<Rightarrow> py_exn + string"
  convert :: "string \<Rightarrow> string \<Rightarrow> py_exn option"
  converted :: "string \<Rightarrow> py_exn + string"
  part_from_text :: "pyval \<Rightarrow> py_exn + part"
  client :: "(instruction \<Rightarrow> content list \<Rightarrow> py_exn + string option) option"
  json_loads :: "string \<Rightarrow> py_exn + pyval"
  speak :: "pyval \<Rightarrow> string \<Rightarrow> py_exn option"
  speak_apology :: "string \<Rightarrow> string \<Rightarrow> py_exn option"

text \<open>
  The state that a request reads and changes: the session manager, the paths that exist on
  disk, the requests made so far, and the paths whose \<open>remove_file\<close> is queued as a background
  task.
\<close>

record world =
  manager :: SessionManager
  files :: "string set"
  calls :: "call list"
  tasks :: "string list"

definition VOICE :: string where
  "VOICE = ''en-IN-NeerjaNeural''"

section \<open>Helpers\<close>

text \<open>\<open>remove_file\<close> unlinks the path if it exists and swallows every exception.\<close>

definition remove_file :: "services \<Rightarrow> string \<Rightarrow> string set \<Rightarrow> string set" where
  "remove_file sv path fs =
     (if path \<in> fs then (if unlink_fails sv path then fs else fs - {path}) else fs)"

definition apology :: string where
  "apology = ''I apologize, I'm having a little trouble connecting right now. Please try again.''"

text \<open>
  \<open>generate_error_audio\<close> creates the temporary file, then synthesises the apology into it;
  neither call is guarded.
\<close>

definition generate_error_audio :: "services \<Rightarrow> world \<Rightarrow> (py_exn + string) \<times> world" where
  "generate_error_audio sv w =
     (case error_temp sv of
        Inl e \<Rightarrow> (Inl e, w)
      | Inr stem \<Rightarrow>
          (let tmp = stem @ ''.mp3'';
               w1 = w\<lparr>files := insert tmp (files w)\<rparr>;
               w2 = w1\<lparr>calls := calls w1 @ [Speak (PStr apology) VOICE tmp]\<rparr>
           in case speak_apology sv apology tmp of
                Some e \<Rightarrow> (Inl e, w2)
              | None \<Rightarrow> (Inr tmp, w2)))"

text \<open>
  \<open>transcribe_audio\<close>. The first \<open>try\<close> returns the recognised text; its two \<open>except\<close> clauses,
  \<open>(ValueError, sr.UnknownValueError)\<close> and \<open>Exception\<close>, differ in what they log and both fall
  through to the conversion. The second \<open>try\<close> maps \<open>sr.UnknownValueError\<close> to \<open>"Silence"\<close> and
  every other exception to \<open>"System Error"\<close>; its \<open>finally\<close> removes the exported file. A failed
  export is taken to leave no file behind.
\<close>

definition slow_path :: "services \<Rightarrow> string \<Rightarrow> world \<Rightarrow> string \<times> world" where
  "slow_path sv file_path w =
     (let wav_path = file_path @ ''.wav'';
          w1 = w\<lparr>calls := calls w @ [Transcode file_path wav_path]\<rparr>
      in case convert sv file_path wav_path of
           Some e \<Rightarrow>
             (if e = UnknownValueError then ''Silence'' else ''System Error'',
              w1\<lparr>files := remove_file sv wav_path (files w1)\<rparr>)
         | None \<Rightarrow>
             (let w2 = w1\<lparr>files := insert wav_path (files w1)\<rparr>
              in case converted sv wav_path of
                   Inr text \<Rightarrow> (text, w2\<lparr>files := remove_file sv wav_path (files w2)\<rparr>)
                 | Inl e \<Rightarrow>
                     (if e = UnknownValueError then ''Silence'' else ''System Error'',
                      w2\<lparr>files := remove_file sv wav_path (files w2)\<rparr>)))"

definition transcribe_audio :: "services \<Rightarrow> string \<Rightarrow> world \<Rightarrow> string \<times> world" where
  "transcribe_audio sv file_path w =
     (case direct sv file_path of
        Inr text \<Rightarrow> (text, w)
      | Inl e \<Rightarrow>
          (if is_ValueError e \<or> e = UnknownValueError
           then slow_path sv file_path w
           else slow_path sv file_path w))"

section \<open>Persona engine\<close>

record PersonaEngine =
  raw_text :: string
  summary :: string

text \<open>
  The two files beside the backend: absent (\<open>None\<close>), present with the text stored in it, or
  present and \<open>read_text\<close> raises.
\<close>

record persona_disk =
  questionnaire :: "(py_exn + string) option"
  cache_file :: "(py_exn + string) option"

text \<open>
  \<open>read_text\<close> opens the file in text mode: a carriage return followed by a line feed, and a
  carriage return alone, are read as one line feed.
\<close>

fun universal_newlines :: "string \<Rightarrow> string" where
  "universal_newlines [] = []"
| "universal_newlines [c] = (if c = CHR 0x0D then [CHR 0x0A] else [c])"
| "universal_newlines (c # d # cs) =
     (if c = CHR 0x0D \<and> d = CHR 0x0A then CHR 0x0A # universal_newlines cs
      else if c = CHR 0x0D then CHR 0x0A # universal_newlines (d # cs)
      else c # universal_newlines (d # cs))"

text \<open>\<open>write_text\<close> writes in text mode: each line feed is stored as \<open>os.linesep\<close>.\<close>

definition platform_newlines :: "string \<Rightarrow> string \<Rightarrow> string" where
  "platform_newlines sep s = concat (map (\<lambda>c. if c = CHR 0x0A then sep else [c]) s)"

text \<open>
  The outcome of \<open>cpath.write_text\<close>: it returns; or the file cannot be opened, and the disk is
  as it was; or the file has been opened, so that it exists and is empty, and after \<open>n\<close>
  characters of the text have been stored the write or the close raises.
\<close>

datatype write_outcome =
    Written
  | NotOpened py_exn
  | Cut py_exn nat

text \<open>
  At start-up \<open>summary_client\<close> is the module's \<open>client\<close> (applied to the questionnaire, which the
  fixed prompt wraps, it is \<open>generate_content\<close> followed by \<open>.text\<close>), \<open>write_cache\<close> is the outcome
  of \<open>cpath.write_text\<close> on a text, and \<open>linesep\<close> is \<open>os.linesep\<close>.
\<close>

record startup =
  summary_client :: "(string \<Rightarrow> py_exn + string option) option"
  write_cache :: "string \<Rightarrow> write_outcome"
  linesep :: string

definition generate_summary_via_llm :: "startup \<Rightarrow> string \<Rightarrow> string option" where
  "generate_summary_via_llm st text =
     (case summary_client st of
        None \<Rightarrow> Some ''No API Key - Default Persona''
      | Some generate \<Rightarrow>
          (case generate text of
             Inl e \<Rightarrow> Some ''Professional Digital Twin (Summary Generation Failed)''
           | Inr t \<Rightarrow> t))"

text \<open>
  \<open>_load_and_summarize\<close>. Every exception inside its \<open>try\<close> ends in the last \<open>except\<close>, which
  sets both fields; \<open>"..." not in None\<close> raises \<open>TypeError\<close> there when the reply has no text.
  An exception of \<open>write_text\<close> is caught by the inner \<open>except\<close>, and the summary stays.
\<close>

definition load_and_summarize :: "startup \<Rightarrow> persona_disk \<Rightarrow> PersonaEngine \<times> persona_disk" where
  "load_and_summarize st disk =
     (let failed = \<lparr>raw_text = ''Error loading persona.'', summary = ''A helpful assistant.''\<rparr>
      in case questionnaire disk of
           None \<Rightarrow>
             (\<lparr>raw_text = ''Standard Professional Persona'',
               summary = ''A helpful professional assistant.''\<rparr>, disk)
         | Some (Inl e) \<Rightarrow> (failed, disk)
         | Some (Inr stored) \<Rightarrow>
             (let txt = universal_newlines stored
              in case cache_file disk of
                   Some (Inl e) \<Rightarrow> (failed, disk)
                 | Some (Inr cached) \<Rightarrow>
                     (\<lparr>raw_text = txt, summary = universal_newlines cached\<rparr>, disk)
                 | None \<Rightarrow>
                     (case generate_summary_via_llm st txt of
                        None \<Rightarrow> (failed, disk)
                      | Some s \<Rightarrow>
                          (if \<not> str_contains s ''Summary Generation Failed''
                           then (case write_cache st s of
                                   Written \<Rightarrow>
                                     (\<lparr>raw_text = txt, summary = s\<rparr>,
                                      disk\<lparr>cache_file :=
                                             Some (Inr (platform_newlines (linesep st) s))\<rparr>)
                                 | NotOpened e \<Rightarrow> (\<lparr>raw_text = txt, summary = s\<rparr>, disk)
                                 | Cut e n \<Rightarrow>
                                     (\<lparr>raw_text = txt, summary = s\<rparr>,
                                      disk\<lparr>cache_file :=
                                             Some (Inr (take n (platform_newlines (linesep st) s)))\<rparr>))
                           else (\<lparr>raw_text = txt, summary = s\<rparr>, disk)))))"

section \<open>The request handler\<close>

record request =
  content_type :: "string option"
  session_id :: string
  user_name :: "string option"
  user_email :: "string option"

text \<open>\<open>FileResponse(path, media_type=..., filename=...)\<close>.\<close>

datatype response = FileResponse string string string

text \<open>
  A \<open>FileResponse\<close> is built with its default status 200; an exception that leaves the handler
  is answered by the framework with status 500.
\<close>

definition status_code :: "py_exn + response \<Rightarrow> nat" where
  "status_code r = (case r of Inr _ \<Rightarrow> 200 | Inl _ \<Rightarrow> 500)"

text \<open>
  Step 1 of the \<open>try\<close>: the temporary file is created, the upload is copied into it, and only
  then is \<open>temp_input_path\<close> assigned.
\<close>

definition chat_voice_ingest :: "services \<Rightarrow> request \<Rightarrow> world \<Rightarrow> (py_exn + string) \<times> world" where
  "chat_voice_ingest sv rq w =
     (let suffix = (if content_type rq = Some ''audio/wav'' then ''.wav'' else ''.webm'')
      in case input_temp sv of
           Inl e \<Rightarrow> (Inl e, w)
         | Inr stem \<Rightarrow>
             (let tmp = stem @ suffix;
                  w1 = w\<lparr>files := insert tmp (files w)\<rparr>
              in case copy_upload sv of
                   Some e \<Rightarrow> (Inl e, w1)
                 | None \<Rightarrow> (Inr tmp, w1)))"

text \<open>
  The loop over \<open>history[-6:]\<close>: \<open>turn["parts"][0]\<close> raises \<open>IndexError\<close> on an empty list, and
  the first exception ends the loop.
\<close>

definition content_of_turn :: "services \<Rightarrow> turn \<Rightarrow> py_exn + content" where
  "content_of_turn sv t =
     (case parts t of
        [] \<Rightarrow> Inl IndexError
      | p # _ \<Rightarrow>
          (case part_from_text sv (ptext p) of
             Inl e \<Rightarrow> Inl e
           | Inr q \<Rightarrow> Inr \<lparr>crole = role t, cparts = [q]\<rparr>))"

fun build_contents :: "services \<Rightarrow> turn list \<Rightarrow> py_exn + content list" where
  "build_contents sv [] = Inr []"
| "build_contents sv (t # ts) =
     (case content_of_turn sv t of
        Inl e \<Rightarrow> Inl e
      | Inr c \<Rightarrow>
          (case build_contents sv ts of
             Inl e \<Rightarrow> Inl e
           | Inr cs \<Rightarrow> Inr (c # cs)))"

definition conversation_contents :: "services \<Rightarrow> turn list \<Rightarrow> string \<Rightarrow> py_exn + content list" where
  "conversation_contents sv hist user_text =
     (case build_contents sv (last_six hist) of
        Inl e \<Rightarrow> Inl e
      | Inr cs \<Rightarrow>
          (case part_from_text sv (PStr user_text) of
             Inl e \<Rightarrow> Inl e
           | Inr q \<Rightarrow> Inr (cs @ [\<lparr>crole = ''user'', cparts = [q]\<rparr>])))"

text \<open>
  \<open>keeps_text\<close> says of the client library that a part which \<open>types.Part.from_text\<close> returns
  holds the text it was given. \<open>as_content\<close> is the \<open>types.Content\<close> with the role of an entry
  and its first part; an entry that \<open>update_history\<close> has appended has that one part only.
\<close>

definition keeps_text :: "services \<Rightarrow> bool" where
  "keeps_text sv = (\<forall>v q. part_from_text sv v = Inr q \<longrightarrow> ptext q = v)"

definition as_content :: "turn \<Rightarrow> content" where
  "as_content t = \<lparr>crole = role t, cparts = take 1 (parts t)\<rparr>"

text \<open>
  From the profile update to the reasoning call (steps 2 to 5 of the source's numbering):
  the result is the transcript and the text of the reply. Without a client,
  \<open>client.models\<close> raises \<open>AttributeError\<close> before any request is made.
\<close>

definition chat_voice_ask ::
  "services \<Rightarrow> PersonaEngine \<Rightarrow> request \<Rightarrow> string \<Rightarrow> world
     \<Rightarrow> (py_exn + string \<times> string option) \<times> world" where
  "chat_voice_ask sv pe rq temp_input_path w =
     (let w1 = (if truthy (user_name rq) \<or> truthy (user_email rq)
                then w\<lparr>manager := update_profile (uuid4 sv 0) (session_id rq)
                                     (user_name rq) (user_email rq) (manager w)\<rparr>
                else w);
          (user_text, w2) = transcribe_audio sv temp_input_path w1;
          (sess, sm) = get_session (uuid4 sv 1) (session_id rq) (manager w2);
          w3 = w2\<lparr>manager := sm\<rparr>;
          hist = history sess;
          current_name = (case name (user_profile sess) of
                            None \<Rightarrow> ''Guest''
                          | Some n \<Rightarrow> if n = [] then ''Guest'' else n);
          system_instruction = \<lparr>who_you_are = summary pe, detailed_profile = raw_text pe,
                                speaking_with = current_name\<rparr>
      in case conversation_contents sv hist user_text of
           Inl e \<Rightarrow> (Inl e, w3)
         | Inr cs \<Rightarrow>
             (case client sv of
                None \<Rightarrow> (Inl AttributeError, w3)
              | Some generate \<Rightarrow>
                  (let w4 = w3\<lparr>calls := calls w3 @ [Generate system_instruction cs]\<rparr>
                   in case generate system_instruction cs of
                        Inl e \<Rightarrow> (Inl e, w4)
                      | Inr raw \<Rightarrow> (Inr (user_text, raw), w4))))"

text \<open>
  The inner \<open>try\<close> around \<open>json.loads\<close>: only \<open>json.JSONDecodeError\<close> is caught. \<open>json.loads(None)\<close>
  raises \<open>TypeError\<close>, and \<open>data.get\<close> raises \<open>AttributeError\<close> when the decoded value is not a
  dict; both leave the inner \<open>try\<close>.
\<close>

definition parse_reply :: "services \<Rightarrow> string \<Rightarrow> string option \<Rightarrow> py_exn + pyval \<times> pyval" where
  "parse_reply sv user_text raw =
     (case raw of
        None \<Rightarrow> Inl TypeError
      | Some reply_text \<Rightarrow>
          (case json_loads sv reply_text of
             Inr (PDict items) \<Rightarrow>
               Inr (case map_of items ''user_summary'' of
                      Some v \<Rightarrow> v
                    | None \<Rightarrow> PStr user_text,
                    case map_of items ''response_text'' of
                      Some v \<Rightarrow> v
                    | None \<Rightarrow> PStr ''I'm not sure I understood.'')
           | Inr _ \<Rightarrow> Inl AttributeError
           | Inl e \<Rightarrow>
               (if e = JSONDecodeError
                then Inr (PStr user_text, PStr (py_strip (sub_fences reply_text)))
                else Inl e)))"

text \<open>
  \<open>print(f"Final Response Text: {response_text}")\<close>. The standard output is taken to be UTF-8
  with the strict error handler that Python gives it, so \<open>print\<close> raises \<open>UnicodeEncodeError\<close>
  exactly when the text to print holds a surrogate code point. The text of a \<open>str\<close> is the \<open>str\<close>
  itself; the text of every other value is made of ASCII characters and of what \<open>repr\<close> leaves
  of its strings, and \<open>repr\<close> escapes the surrogates. The other prints of the handler show fixed
  texts, fields of the request, the transcript and the reply, which hold no surrogate in the
  model: they cannot raise and are left out, as the logging is.
\<close>

definition is_surrogate :: "nat \<Rightarrow> bool" where
  "is_surrogate n = (55296 \<le> n \<and> n \<le> 57343)"

definition stdout_rejects :: "pyval \<Rightarrow> bool" where
  "stdout_rejects v = (case v of PUni cps \<Rightarrow> list_ex is_surrogate cps | _ \<Rightarrow> False)"

text \<open>From the parsing of the reply to the \<open>return\<close> of the \<open>try\<close>.\<close>

definition chat_voice_reply ::
  "services \<Rightarrow> request \<Rightarrow> string \<Rightarrow> string \<Rightarrow> string option \<Rightarrow> world
     \<Rightarrow> (py_exn + response) \<times> world" where
  "chat_voice_reply sv rq temp_input_path user_text raw w =
     (case parse_reply sv user_text raw of
        Inl e \<Rightarrow> (Inl e, w)
      | Inr (user_summary, response_text) \<Rightarrow>
          (if stdout_rejects response_text then (Inl (OtherError ''UnicodeEncodeError''), w)
           else
             (let w1 = w\<lparr>manager := update_history (uuid4 sv 2) (session_id rq)
                                       user_summary response_text (manager w)\<rparr>;
                  out_filename = ''resp_'' @ uuid4 sv 3 @ ''.mp3'';
                  w2 = w1\<lparr>calls := calls w1 @ [Speak response_text VOICE out_filename]\<rparr>
              in case speak sv response_text out_filename of
                   Some e \<Rightarrow> (Inl e, w2)
                 | None \<Rightarrow>
                     (let w3 = w2\<lparr>files := insert out_filename (files w2)\<rparr>;
                          w4 = w3\<lparr>files := remove_file sv temp_input_path (files w3)\<rparr>;
                          w5 = w4\<lparr>tasks := tasks w4 @ [out_filename]\<rparr>
                      in (Inr (FileResponse out_filename ''audio/mpeg'' ''response.mp3''), w5)))))"

text \<open>
  The body of the \<open>try\<close>: its outcome, the value of \<open>temp_input_path\<close> when it ends, and the
  world.
\<close>

definition chat_voice_body ::
  "services \<Rightarrow> PersonaEngine \<Rightarrow> request \<Rightarrow> world
     \<Rightarrow> (py_exn + response) \<times> string option \<times> world" where
  "chat_voice_body sv pe rq w =
     (case chat_voice_ingest sv rq w of
        (Inl e, w1) \<Rightarrow> (Inl e, None, w1)
      | (Inr tmp, w1) \<Rightarrow>
          (case chat_voice_ask sv pe rq tmp w1 of
             (Inl e, w2) \<Rightarrow> (Inl e, Some tmp, w2)
           | (Inr (user_text, raw), w2) \<Rightarrow>
               (case chat_voice_reply sv rq tmp user_text raw w2 of
                  (r, w3) \<Rightarrow> (r, Some tmp, w3))))"

text \<open>The \<open>except Exception\<close> of the handler.\<close>

definition chat_voice_except :: "services \<Rightarrow> string option \<Rightarrow> world \<Rightarrow> (py_exn + response) \<times> world" where
  "chat_voice_except sv temp_input_path w =
     (let w1 = (case temp_input_path of
                  None \<Rightarrow> w
                | Some p \<Rightarrow> if p = [] then w else w\<lparr>files := remove_file sv p (files w)\<rparr>)
      in case generate_error_audio sv w1 of
           (Inl e, w2) \<Rightarrow> (Inl e, w2)
         | (Inr err_file, w2) \<Rightarrow>
             (Inr (FileResponse err_file ''audio/mpeg'' ''error.mp3''),
              w2\<lparr>tasks := tasks w2 @ [err_file]\<rparr>))"

definition chat_voice ::
  "services \<Rightarrow> PersonaEngine \<Rightarrow> request \<Rightarrow> world \<Rightarrow> (py_exn + response) \<times> world" where
  "chat_voice sv pe rq w =
     (case chat_voice_body sv pe rq w of
        (Inr r, temp_input_path, w1) \<Rightarrow> (Inr r, w1)
      | (Inl e, temp_input_path, w1) \<Rightarrow> chat_voice_except sv temp_input_path w1)"

section \<open>Sequences of calls and concrete inputs\<close>

text \<open>A sequence of \<open>update_profile\<close> calls on one session, each with the identifier drawn for it.\<close>

fun update_profiles ::
  "string \<Rightarrow> (string \<times> string option \<times> string option) list \<Rightarrow> SessionManager \<Rightarrow> SessionManager" where
  "update_profiles sid [] sm = sm"
| "update_profiles sid ((uid, nm, em) # cs) sm =
     update_profiles sid cs (update_profile uid sid nm em sm)"

text \<open>A store that holds one session, with a name and one exchange.\<close>

definition one_session :: SessionManager where
  "one_session =
     \<lparr>sessions =
        [''s1'' \<mapsto>
           \<lparr>history = [\<lparr>role = ''user'', parts = [\<lparr>ptext = PStr ''hi''\<rparr>]\<rparr>,
                        \<lparr>role = ''model'', parts = [\<lparr>ptext = PStr ''hello''\<rparr>]\<rparr>],
             user_profile = \<lparr>name = Some ''Alice'', email = None\<rparr>,
             created_at = ''c0''\<rparr>]\<rparr>"

text \<open>
  A services record in which every call succeeds. \<open>loads_table\<close> gives \<open>json.loads\<close> at the
  replies used below: the well-formed reply of the specification, two more objects, the empty
  object, a list, and a fenced text that is not JSON.
\<close>

definition reply_ok :: string where
  \<open>reply_ok = ''{"user_summary":"asked about X","response_text":"I focus on Y"}''\<close>

definition reply_fenced :: string where
  "reply_fenced = ''```json'' @ [CHR 0x0A] @ ''{bad}'' @ [CHR 0x0A] @ ''```''"

text \<open>
  A reply of ASCII characters whose \<open>response_text\<close> is the escape of the lone surrogate
  \<open>U+D800\<close> (the character 0x5C is the backslash), and a reply whose summary is \<open>null\<close>.
\<close>

definition reply_surrogate :: string where
  \<open>reply_surrogate =
     ''{"user_summary":"a","response_text":"'' @ [CHR 0x5C] @ ''ud800"}''\<close>

definition reply_null :: string where
  \<open>reply_null = ''{"user_summary": null, "response_text": "ok"}''\<close>

definition loads_table :: "string \<Rightarrow> py_exn + pyval" where
  "loads_table s =
     (if s = reply_ok
      then Inr (PDict [(''user_summary'', PStr ''asked about X''),
                       (''response_text'', PStr ''I focus on Y'')])
      else if s = reply_surrogate
      then Inr (PDict [(''user_summary'', PStr ''a''), (''response_text'', PUni [55296])])
      else if s = reply_null
      then Inr (PDict [(''user_summary'', PNone), (''response_text'', PStr ''ok'')])
      else if s = ''{}'' then Inr (PDict [])
      else if s = ''[1, 2]'' then Inr (PList [PInt 1, PInt 2])
      else Inl JSONDecodeError)"

definition studio :: services where
  "studio =
     \<lparr>input_temp = Inr ''/tmp/tmpk3x9'',
      error_temp = Inr ''/tmp/tmpq7w2'',
      copy_upload = None,
      unlink_fails = (\<lambda>p. False),
      uuid4 = (\<lambda>k. replicate (Suc k) CHR ''a''),
      direct = (\<lambda>p. Inr ''what do you do''),
      convert = (\<lambda>src dst. None),
      converted = (\<lambda>p. Inr ''what do you do''),
      part_from_text = (\<lambda>v. case v of PStr s \<Rightarrow> Inr \<lparr>ptext = PStr s\<rparr>
                                   | PUni cps \<Rightarrow> Inr \<lparr>ptext = PUni cps\<rparr>
                                   | PNone \<Rightarrow> Inr \<lparr>ptext = PNone\<rparr>
                                   | _ \<Rightarrow> Inl ValueError),
      client = Some (\<lambda>i cs. Inr (Some reply_ok)),
      json_loads = loads_table,
      speak = (\<lambda>t p. case t of PStr s \<Rightarrow> None | PUni cps \<Rightarrow> None | _ \<Rightarrow> Some TypeError),
      speak_apology = (\<lambda>t p. None)\<rparr>"

text \<open>The speech service is unreachable: both syntheses raise.\<close>

definition tts_down :: services where
  "tts_down = studio\<lparr>speak := (\<lambda>t p. Some (OtherError ''NoAudioReceived'')),
                      speak_apology := (\<lambda>t p. Some (OtherError ''NoAudioReceived''))\<rparr>"

text \<open>
  The direct recognition reports that it understood nothing, and the decoder cannot read the
  file.
\<close>

definition no_speech_no_codec :: services where
  "no_speech_no_codec =
     studio\<lparr>direct := (\<lambda>p. Inl UnknownValueError),
            convert := (\<lambda>src dst. Some (OtherError ''CouldntDecodeError''))\<rparr>"

definition niharika :: PersonaEngine where
  "niharika = \<lparr>raw_text = ''Q and A'', summary = ''=== CORE IDENTITY ===''\<rparr>"

definition upload :: request where
  "upload = \<lparr>content_type = Some ''audio/webm'', session_id = ''s1'',
             user_name = Some ''Alice'', user_email = None\<rparr>"

definition idle :: world where
  "idle = \<lparr>manager = \<lparr>sessions = Map.empty\<rparr>, files = {}, calls = [], tasks = []\<rparr>"

text \<open>A first start without an API key: the questionnaire is there, the cache is not.\<close>

definition no_api_key :: startup where
  "no_api_key = \<lparr>summary_client = None, write_cache = (\<lambda>s. Written), linesep = [CHR 0x0A]\<rparr>"

text \<open>A later start with a key, on the disk that the first start has left.\<close>

definition with_api_key :: startup where
  "with_api_key =
     \<lparr>summary_client = Some (\<lambda>q. Inr (Some ''=== CORE IDENTITY ==='')),
      write_cache = (\<lambda>s. Written), linesep = [CHR 0x0A]\<rparr>"

definition first_start :: persona_disk where
  "first_start = \<lparr>questionnaire = Some (Inr ''Q: who are you?''), cache_file = None\<rparr>"

text \<open>Without an API key the module's \<open>client\<close> is \<open>None\<close>.\<close>

definition no_client :: services where
  "no_client = studio\<lparr>client := None\<rparr>"

text \<open>The copy of the upload into the temporary file fails.\<close>

definition copy_fails :: services where
  "copy_fails = studio\<lparr>copy_upload := Some (OtherError ''OSError'')\<rparr>"

text \<open>The reasoning service answers with the lone surrogate, respectively with the null summary.\<close>

definition surrogate_answer :: services where
  "surrogate_answer = studio\<lparr>client := Some (\<lambda>i cs. Inr (Some reply_surrogate))\<rparr>"

definition null_summary :: services where
  "null_summary = studio\<lparr>client := Some (\<lambda>i cs. Inr (Some reply_null))\<rparr>"

text \<open>
  A world in which the session of \<open>upload\<close> holds four exchanges; the summary stored for the
  third is \<open>None\<close>.
\<close>

definition four_exchanges :: "turn list" where
  "four_exchanges =
     [\<lparr>role = ''user'', parts = [\<lparr>ptext = PStr ''q1''\<rparr>]\<rparr>,
      \<lparr>role = ''model'', parts = [\<lparr>ptext = PStr ''a1''\<rparr>]\<rparr>,
      \<lparr>role = ''user'', parts = [\<lparr>ptext = PStr ''q2''\<rparr>]\<rparr>,
      \<lparr>role = ''model'', parts = [\<lparr>ptext = PStr ''a2''\<rparr>]\<rparr>,
      \<lparr>role = ''user'', parts = [\<lparr>ptext = PNone\<rparr>]\<rparr>,
      \<lparr>role = ''model'', parts = [\<lparr>ptext = PStr ''a3''\<rparr>]\<rparr>,
      \<lparr>role = ''user'', parts = [\<lparr>ptext = PStr ''q4''\<rparr>]\<rparr>,
      \<lparr>role = ''model'', parts = [\<lparr>ptext = PStr ''a4''\<rparr>]\<rparr>]"

definition busy :: world where
  "busy =
     \<lparr>manager =
        \<lparr>sessions =
           [''s1'' \<mapsto> \<lparr>history = four_exchanges,
                         user_profile = \<lparr>name = Some ''Alice'', email = None\<rparr>,
                         created_at = ''c0''\<rparr>]\<rparr>,
      files = {}, calls = [], tasks = []\<rparr>"

section \<open>Properties of the session store\<close>

lemma name_of_update_profile:
  "name_of (update_profile uid sid nm em sm) sid' =
     (if sid' = sid \<and> truthy nm then nm else name_of sm sid')"
  by (simp add: name_of_def update_profile_def get_session_def Let_def split: option.splits)

lemma email_of_update_profile:
  "email_of (update_profile uid sid nm em sm) sid' =
     (if sid' = sid \<and> truthy em then em else email_of sm sid')"
  by (simp add: email_of_def update_profile_def get_session_def Let_def split: option.splits)

lemma history_of_update_profile:
  "history_of (update_profile uid sid nm em sm) sid' = history_of sm sid'"
  by (simp add: history_of_def update_profile_def get_session_def Let_def split: option.splits)

lemma history_of_update_history:
  "history_of (update_history uid sid u m sm) sid' =
     (if sid' = sid
      then history_of sm sid @
             [\<lparr>role = ''user'', parts = [\<lparr>ptext = u\<rparr>]\<rparr>,
              \<lparr>role = ''model'', parts = [\<lparr>ptext = m\<rparr>]\<rparr>]
      else history_of sm sid')"
  by (simp add: history_of_def update_history_def get_session_def Let_def split: option.splits)

lemma history_of_get_session:
  "history_of (snd (get_session uid sid sm)) sid' = history_of sm sid'"
  by (simp add: history_of_def get_session_def Let_def split: option.splits)

lemma history_fst_get_session:
  "history (fst (get_session uid sid sm)) = history_of sm sid"
  by (simp add: history_of_def get_session_def Let_def split: option.splits)

lemma name_of_update_profiles:
  "name_of (update_profiles sid cs sm) sid =
     (if filter truthy (map (\<lambda>(uid, nm, em). nm) cs) = [] then name_of sm sid
      else last (filter truthy (map (\<lambda>(uid, nm, em). nm) cs)))"
proof (induction cs arbitrary: sm)
  case Nil
  show ?case by simp
next
  case (Cons c cs)
  obtain uid nm em where c: "c = (uid, nm, em)" by (cases c) auto
  show ?case
    by (simp add: c Cons.IH name_of_update_profile)
qed

lemma email_of_update_profiles:
  "email_of (update_profiles sid cs sm) sid =
     (if filter truthy (map (\<lambda>(uid, nm, em). em) cs) = [] then email_of sm sid
      else last (filter truthy (map (\<lambda>(uid, nm, em). em) cs)))"
proof (induction cs arbitrary: sm)
  case Nil
  show ?case by simp
next
  case (Cons c cs)
  obtain uid nm em where c: "c = (uid, nm, em)" by (cases c) auto
  show ?case
    by (simp add: c Cons.IH email_of_update_profile)
qed

lemma history_of_update_profiles:
  "history_of (update_profiles sid cs sm) sid' = history_of sm sid'"
  by (induction sid cs sm rule: update_profiles.induct) (simp_all add: history_of_update_profile)

text \<open>
  Claim C7. After any sequence of \<open>update_profile\<close> calls on a session, its name is the name
  of the last call that supplied a non-empty one, and the name it had before if no call did;
  the same holds for the email, independently; the history is untouched. So a field changes
  only through a call that supplies a non-empty value for it, and a call that omits a field
  (or passes the empty string) leaves it as it was.
\<close>

theorem update_profile_keeps_omitted_fields:
  "name_of (update_profiles sid cs sm) sid =
     (if filter truthy (map (\<lambda>(uid, nm, em). nm) cs) = [] then name_of sm sid
      else last (filter truthy (map (\<lambda>(uid, nm, em). nm) cs)))
   \<and> email_of (update_profiles sid cs sm) sid =
     (if filter truthy (map (\<lambda>(uid, nm, em). em) cs) = [] then email_of sm sid
      else last (filter truthy (map (\<lambda>(uid, nm, em). em) cs)))
   \<and> history_of (update_profiles sid cs sm) sid = history_of sm sid"
  using name_of_update_profiles email_of_update_profiles history_of_update_profiles by simp

text \<open>The two calls of the specification: the name first, the email second.\<close>

theorem update_profile_keeps_omitted_fields_witness:
  "name_of (update_profiles ''s'' [(''u1'', Some ''Alice'', None), (''u2'', None, Some ''a@x.com'')]
              \<lparr>sessions = Map.empty\<rparr>) ''s'' = Some ''Alice''
   \<and> email_of (update_profiles ''s'' [(''u1'', Some ''Alice'', None), (''u2'', None, Some ''a@x.com'')]
              \<lparr>sessions = Map.empty\<rparr>) ''s'' = Some ''a@x.com''"
  using update_profile_keeps_omitted_fields
    [of "''s''" "[(''u1'', Some ''Alice'', None), (''u2'', None, Some ''a@x.com'')]"
      "\<lparr>sessions = Map.empty\<rparr>"]
  by (simp add: name_of_def email_of_def)

text \<open>
  Claim C8. \<open>update_history\<close> appends to the history of the session it names one user entry
  with the first text and then one model entry with the second, whatever the history's length
  was, and leaves every other session's history alone; the length grows by exactly two.
\<close>

theorem update_history_appends_two:
  "history_of (update_history uid sid u m sm) sid' =
     (if sid' = sid
      then history_of sm sid @
             [\<lparr>role = ''user'', parts = [\<lparr>ptext = u\<rparr>]\<rparr>,
              \<lparr>role = ''model'', parts = [\<lparr>ptext = m\<rparr>]\<rparr>]
      else history_of sm sid')
   \<and> length (history_of (update_history uid sid u m sm) sid) = length (history_of sm sid) + 2"
  by (simp add: history_of_update_history)

text \<open>
  Claim C9. For an identifier that the store does not hold, \<open>get_session\<close> returns a session
  with an empty history and no name or email. After \<open>clear\<close> it returns the same, and what it
  returns is what it returns for that identifier on any store that never held it. \<open>clear\<close>
  removes that one entry, and on an identifier that the store does not hold it changes nothing.
\<close>

theorem get_session_fresh_after_clear:
  "(sid \<notin> dom (sessions sm) \<longrightarrow>
      fst (get_session uid sid sm) =
        \<lparr>history = [], user_profile = \<lparr>name = None, email = None\<rparr>, created_at = uid\<rparr>)
   \<and> fst (get_session uid sid (clear sid sm)) =
        \<lparr>history = [], user_profile = \<lparr>name = None, email = None\<rparr>, created_at = uid\<rparr>
   \<and> (sid \<notin> dom (sessions sm') \<longrightarrow>
        fst (get_session uid sid (clear sid sm)) = fst (get_session uid sid sm'))
   \<and> sessions (clear sid sm) = (sessions sm)(sid := None)
   \<and> (sid \<notin> dom (sessions sm) \<longrightarrow> clear sid sm = sm)"
  by (auto simp: get_session_def clear_def dom_def Let_def split: option.splits)

theorem get_session_fresh_after_clear_witness:
  "fst (get_session ''u'' ''s2'' one_session) =
     \<lparr>history = [], user_profile = \<lparr>name = None, email = None\<rparr>, created_at = ''u''\<rparr>
   \<and> fst (get_session ''u'' ''s1'' (clear ''s1'' one_session)) =
     \<lparr>history = [], user_profile = \<lparr>name = None, email = None\<rparr>, created_at = ''u''\<rparr>
   \<and> fst (get_session ''u'' ''s1'' (clear ''s1'' one_session)) =
     fst (get_session ''u'' ''s1'' \<lparr>sessions = Map.empty\<rparr>)
   \<and> clear ''s2'' one_session = one_session"
proof -
  have never_seen: "''s2'' \<notin> dom (sessions one_session)"
    by (simp add: one_session_def)
  have empty_store: "''s1'' \<notin> dom (sessions \<lparr>sessions = Map.empty\<rparr>)"
    by simp
  show ?thesis
    using never_seen empty_store
      get_session_fresh_after_clear [of "''s2''" one_session "''u''" one_session]
      get_session_fresh_after_clear [of "''s1''" one_session "''u''" "\<lparr>sessions = Map.empty\<rparr>"]
    by blast
qed

text \<open>
  Claim C10. On an identifier that the store does not hold, \<open>update_history\<close> and
  \<open>update_profile\<close> first create the empty session and then change it: a following
  \<open>get_session\<close> returns the session with the two entries, respectively with the supplied
  fields, and creates nothing more.
\<close>

theorem mutators_create_the_session:
  assumes "sid \<notin> dom (sessions sm)"
  shows "get_session uid' sid (update_history uid sid u m sm) =
           (\<lparr>history = [\<lparr>role = ''user'', parts = [\<lparr>ptext = u\<rparr>]\<rparr>,
                        \<lparr>role = ''model'', parts = [\<lparr>ptext = m\<rparr>]\<rparr>],
             user_profile = \<lparr>name = None, email = None\<rparr>,
             created_at = uid\<rparr>,
            update_history uid sid u m sm)
       \<and> get_session uid' sid (update_profile uid sid nm em sm) =
           (\<lparr>history = [],
             user_profile = \<lparr>name = (if truthy nm then nm else None),
                              email = (if truthy em then em else None)\<rparr>,
             created_at = uid\<rparr>,
            update_profile uid sid nm em sm)"
  using assms
  by (auto simp: get_session_def update_history_def update_profile_def Let_def dom_def)

theorem mutators_create_the_session_witness:
  "''s2'' \<notin> dom (sessions one_session)
   \<and> fst (get_session ''u2'' ''s2'' (update_history ''u1'' ''s2'' (PStr ''hi'') (PStr ''hello'') one_session)) =
       \<lparr>history = [\<lparr>role = ''user'', parts = [\<lparr>ptext = PStr ''hi''\<rparr>]\<rparr>,
                    \<lparr>role = ''model'', parts = [\<lparr>ptext = PStr ''hello''\<rparr>]\<rparr>],
         user_profile = \<lparr>name = None, email = None\<rparr>,
         created_at = ''u1''\<rparr>
   \<and> fst (get_session ''u2'' ''s2'' (update_profile ''u1'' ''s2'' (Some ''Bob'') None one_session)) =
       \<lparr>history = [],
         user_profile = \<lparr>name = Some ''Bob'', email = None\<rparr>,
         created_at = ''u1''\<rparr>"
proof -
  have absent: "''s2'' \<notin> dom (sessions one_session)"
    by (simp add: one_session_def)
  show ?thesis
    using absent
      mutators_create_the_session [OF absent, of "''u2''" "''u1''" "PStr ''hi''" "PStr ''hello''"
        "Some ''Bob''" None]
    by simp
qed

section \<open>Properties of the string helpers\<close>

lemma str_contains_sublist: "str_contains hay needle = sublist needle hay"
  by (induction hay) (auto simp: sublist_Cons_right)

lemma fence_json_prefix: "prefix ''```json'' xs \<Longrightarrow> prefix ''```'' xs"
proof -
  assume a: "prefix ''```json'' xs"
  have "prefix ''```'' ''```json''" by simp
  then show ?thesis using a by (rule prefix_order.trans)
qed

lemma sub_fences_json:
  "prefix ''```json'' (c # cs) \<Longrightarrow> sub_fences (c # cs) = sub_fences (drop 7 (c # cs))"
  by (subst sub_fences.simps) (simp only: if_True)

lemma sub_fences_fence:
  "\<not> prefix ''```json'' (c # cs) \<Longrightarrow> prefix ''```'' (c # cs) \<Longrightarrow>
     sub_fences (c # cs) = sub_fences (drop 3 (c # cs))"
  by (subst sub_fences.simps) (simp only: if_True if_False)

lemma sub_fences_keep:
  assumes np: "\<not> prefix ''```'' (c # cs)"
  shows "sub_fences (c # cs) = c # sub_fences cs"
proof -
  have nj: "\<not> prefix ''```json'' (c # cs)"
    using fence_json_prefix np by blast
  show ?thesis
    by (subst sub_fences.simps) (simp only: nj np if_False)
qed

lemma sub_fences_two_ticks:
  "\<not> prefix ''``'' cs \<Longrightarrow> \<not> prefix ''``'' (sub_fences cs)"
proof (cases cs)
  case Nil
  then show ?thesis by simp
next
  case (Cons c ds)
  assume no: "\<not> prefix ''``'' cs"
  show ?thesis
  proof (cases ds)
    case Nil
    with Cons show ?thesis by simp
  next
    case inner: (Cons d es)
    with Cons no show ?thesis by auto
  qed
qed

lemma sub_fences_no_fence: "\<not> sublist ''```'' (sub_fences s)"
proof (induction s rule: sub_fences.induct)
  case 1
  show ?case by simp
next
  case (2 c cs)
  show ?case
  proof (cases "prefix ''```json'' (c # cs)")
    case True
    from 2(1) [OF True] show ?thesis
      unfolding sub_fences_json [OF True] .
  next
    case nj: False
    show ?thesis
    proof (cases "prefix ''```'' (c # cs)")
      case True
      from 2(2) [OF nj True] show ?thesis
        unfolding sub_fences_fence [OF nj True] .
    next
      case False
      have ih: "\<not> sublist ''```'' (sub_fences cs)"
        using 2(3) [OF nj False] .
      have np: "\<not> prefix ''```'' (c # sub_fences cs)"
      proof
        assume p: "prefix ''```'' (c # sub_fences cs)"
        then have c: "c = CHR 0x60" and "prefix ''``'' (sub_fences cs)" by auto
        then have "prefix ''``'' cs" using sub_fences_two_ticks by blast
        with c have "prefix ''```'' (c # cs)" by simp
        with False show False by blast
      qed
      have "\<not> sublist ''```'' (c # sub_fences cs)"
        using ih np by (subst sublist_Cons_right) blast
      then show ?thesis
        unfolding sub_fences_keep [OF False] .
    qed
  qed
qed

lemma sub_fences_id: "\<not> sublist ''```'' s \<Longrightarrow> sub_fences s = s"
proof (induction s rule: sub_fences.induct)
  case 1
  show ?case by simp
next
  case (2 c cs)
  from 2(4) have np: "\<not> prefix ''```'' (c # cs)" and ns: "\<not> sublist ''```'' cs"
    by (simp_all add: sublist_Cons_right)
  from np have nj: "\<not> prefix ''```json'' (c # cs)"
    using fence_json_prefix by blast
  from 2(3) [OF nj np ns] show ?case
    unfolding sub_fences_keep [OF np] by (rule arg_cong)
qed

lemma sub_fences_subseq: "subseq (sub_fences s) s"
proof (induction s rule: sub_fences.induct)
  case 1
  show ?case by simp
next
  case (2 c cs)
  have d: "subseq (drop n (c # cs)) (c # cs)" for n
    by (metis append_take_drop_id list_emb_append2 subseq_order.order_refl)
  show ?case
  proof (cases "prefix ''```json'' (c # cs)")
    case True
    from 2(1) [OF True] d [of 7] have "subseq (sub_fences (drop 7 (c # cs))) (c # cs)"
      by (rule subseq_order.order_trans)
    then show ?thesis unfolding sub_fences_json [OF True] .
  next
    case nj: False
    show ?thesis
    proof (cases "prefix ''```'' (c # cs)")
      case True
      from 2(2) [OF nj True] d [of 3] have "subseq (sub_fences (drop 3 (c # cs))) (c # cs)"
        by (rule subseq_order.order_trans)
      then show ?thesis unfolding sub_fences_fence [OF nj True] .
    next
      case False
      from 2(3) [OF nj False] have "subseq (c # sub_fences cs) (c # cs)" by simp
      then show ?thesis unfolding sub_fences_keep [OF False] .
    qed
  qed
qed

lemma py_strip_tail:
  "dropWhile py_isspace s =
     py_strip s @ rev (takeWhile py_isspace (rev (dropWhile py_isspace s)))"
proof -
  let ?ys = "rev (dropWhile py_isspace s)"
  have "rev (takeWhile py_isspace ?ys @ dropWhile py_isspace ?ys) = rev ?ys"
    by (simp only: takeWhile_dropWhile_id)
  then have "rev (dropWhile py_isspace ?ys) @ rev (takeWhile py_isspace ?ys) = rev ?ys"
    by (simp only: rev_append)
  then show ?thesis
    by (simp only: py_strip_def rev_rev_ident)
qed

lemma py_strip_split:
  "s = takeWhile py_isspace s @ py_strip s @
         rev (takeWhile py_isspace (rev (dropWhile py_isspace s)))"
proof -
  have "s = takeWhile py_isspace s @ dropWhile py_isspace s"
    by (simp only: takeWhile_dropWhile_id)
  then show ?thesis
    using py_strip_tail [of s] by metis
qed

lemma py_strip_sublist: "sublist (py_strip s) s"
  using py_strip_split [of s] unfolding sublist_def by blast

lemma py_strip_ends:
  "py_strip s = [] \<or> (\<not> py_isspace (hd (py_strip s)) \<and> \<not> py_isspace (last (py_strip s)))"
proof (cases "py_strip s = []")
  case True
  then show ?thesis by simp
next
  case False
  let ?zs = "dropWhile py_isspace s"
  let ?ys = "dropWhile py_isspace (rev ?zs)"
  have r: "py_strip s = rev ?ys" by (simp only: py_strip_def)
  with False have ys: "?ys \<noteq> []" by simp
  then have "\<not> py_isspace (hd ?ys)" by (rule hd_dropWhile)
  moreover have "last (rev ?ys) = hd ?ys" using ys by (simp add: last_rev)
  ultimately have l: "\<not> py_isspace (last (py_strip s))"
    by (metis r)
  have zs: "?zs = py_strip s @ rev (takeWhile py_isspace (rev ?zs))"
    by (rule py_strip_tail)
  with False have nz: "?zs \<noteq> []" by (metis append_is_Nil_conv)
  then have h: "\<not> py_isspace (hd ?zs)" by (rule hd_dropWhile)
  have "hd ?zs = hd (py_strip s @ rev (takeWhile py_isspace (rev ?zs)))"
    using zs by simp
  also have "\<dots> = hd (py_strip s)" using False by (rule hd_append2)
  finally have "hd ?zs = hd (py_strip s)" .
  with h l show ?thesis by simp
qed

lemma stripped_no_fence: "\<not> sublist ''```'' (py_strip (sub_fences s))"
  using py_strip_sublist [of "sub_fences s"] sub_fences_no_fence [of s]
  by (meson sublist_order.order_trans)

section \<open>Properties of the transcription\<close>

lemma transcribe_audio_text:
  "fst (transcribe_audio sv p w) =
     (case direct sv p of
        Inr text \<Rightarrow> text
      | Inl e \<Rightarrow>
          (case convert sv p (p @ ''.wav'') of
             Some e' \<Rightarrow> if e' = UnknownValueError then ''Silence'' else ''System Error''
           | None \<Rightarrow>
               (case converted sv (p @ ''.wav'') of
                  Inr text \<Rightarrow> text
                | Inl e' \<Rightarrow> if e' = UnknownValueError then ''Silence'' else ''System Error'')))"
  by (simp add: transcribe_audio_def slow_path_def Let_def split: sum.splits option.splits)

lemma transcribe_audio_calls:
  "calls (snd (transcribe_audio sv p w)) =
     (case direct sv p of
        Inr text \<Rightarrow> calls w
      | Inl e \<Rightarrow> calls w @ [Transcode p (p @ ''.wav'')])"
  by (simp add: transcribe_audio_def slow_path_def Let_def split: sum.splits option.splits)

lemma transcribe_audio_manager:
  "manager (snd (transcribe_audio sv p w)) = manager w"
  by (simp add: transcribe_audio_def slow_path_def Let_def split: sum.splits option.splits)

lemma transcribe_audio_tasks:
  "tasks (snd (transcribe_audio sv p w)) = tasks w"
  by (simp add: transcribe_audio_def slow_path_def Let_def split: sum.splits option.splits)

text \<open>
  Claim C4, as stated, fails. The direct recognition raises \<open>sr.UnknownValueError\<close> (no speech
  understood); the conversion is entered all the same, the decoder fails, and the transcript
  is \<open>"System Error"\<close>, not \<open>"Silence"\<close>.
\<close>

theorem transcribe_audio_no_speech_counterexample:
  "direct no_speech_no_codec ''/tmp/tmpk3x9.wav'' = Inl UnknownValueError
   \<and> fst (transcribe_audio no_speech_no_codec ''/tmp/tmpk3x9.wav'' idle) = ''System Error''
   \<and> fst (transcribe_audio no_speech_no_codec ''/tmp/tmpk3x9.wav'' idle) \<noteq> ''Silence''
   \<and> calls (snd (transcribe_audio no_speech_no_codec ''/tmp/tmpk3x9.wav'' idle)) =
        [Transcode ''/tmp/tmpk3x9.wav'' ''/tmp/tmpk3x9.wav.wav'']"
  by (simp add: transcribe_audio_def slow_path_def no_speech_no_codec_def studio_def idle_def Let_def)

text \<open>
  Claim C4, amended. \<open>transcribe_audio\<close> always returns a string. It is the recognised text
  when the direct recognition succeeds, and then no conversion is made. When the direct
  recognition raises anything, a format error and "no speech understood" alike, the conversion
  is entered, and the result is the text recognised on the converted file, \<open>"Silence"\<close> when the
  conversion path raises \<open>sr.UnknownValueError\<close>, and \<open>"System Error"\<close> for every other exception
  of that path.
\<close>

theorem transcribe_audio_outcomes:
  "fst (transcribe_audio sv p w) =
     (case direct sv p of
        Inr text \<Rightarrow> text
      | Inl e \<Rightarrow>
          (case convert sv p (p @ ''.wav'') of
             Some e' \<Rightarrow> if e' = UnknownValueError then ''Silence'' else ''System Error''
           | None \<Rightarrow>
               (case converted sv (p @ ''.wav'') of
                  Inr text \<Rightarrow> text
                | Inl e' \<Rightarrow> if e' = UnknownValueError then ''Silence'' else ''System Error'')))
   \<and> calls (snd (transcribe_audio sv p w)) =
     (case direct sv p of
        Inr text \<Rightarrow> calls w
      | Inl e \<Rightarrow> calls w @ [Transcode p (p @ ''.wav'')])"
  using transcribe_audio_text transcribe_audio_calls by simp

section \<open>Properties of the persona engine\<close>

text \<open>
  The cache file is changed only when the summary does not contain the marker, and a failure
  of the remote call leaves the disk as it was.
\<close>

lemma cache_changed_without_marker:
  "cache_file (snd (load_and_summarize st disk)) = cache_file disk
   \<or> \<not> sublist ''Summary Generation Failed'' (summary (fst (load_and_summarize st disk)))"
  by (auto simp: load_and_summarize_def Let_def str_contains_sublist
      split: option.splits sum.splits write_outcome.splits)

lemma remote_failure_not_cached:
  "summary_client st = Some generate \<Longrightarrow> generate (universal_newlines stored) = Inl e \<Longrightarrow>
   questionnaire disk = Some (Inr stored) \<Longrightarrow> cache_file disk = None \<Longrightarrow>
   load_and_summarize st disk =
     (\<lparr>raw_text = universal_newlines stored,
       summary = ''Professional Digital Twin (Summary Generation Failed)''\<rparr>, disk)"
  by (simp add: load_and_summarize_def generate_summary_via_llm_def Let_def)

text \<open>
  Claim C5 at a first start without an API key. No summary is generated:
  \<open>_generate_summary_via_llm\<close> returns its fixed string for the missing key. That string does
  not contain the marker, so it is written to the cache file.
\<close>

theorem no_api_key_summary_is_cached:
  "generate_summary_via_llm no_api_key ''Q: who are you?'' = Some ''No API Key - Default Persona''
   \<and> load_and_summarize no_api_key first_start =
     (\<lparr>raw_text = ''Q: who are you?'', summary = ''No API Key - Default Persona''\<rparr>,
      \<lparr>questionnaire = Some (Inr ''Q: who are you?''),
        cache_file = Some (Inr ''No API Key - Default Persona'')\<rparr>)"
  by (simp add: load_and_summarize_def generate_summary_via_llm_def no_api_key_def first_start_def
      platform_newlines_def Let_def)

text \<open>
  A later start, now with a key, finds the cache file and loads the string of the first start
  as the summary; nothing is generated.
\<close>

lemma cached_fallback_is_loaded:
  "load_and_summarize with_api_key
     \<lparr>questionnaire = Some (Inr ''Q: who are you?''),
       cache_file = Some (Inr ''No API Key - Default Persona'')\<rparr> =
     (\<lparr>raw_text = ''Q: who are you?'', summary = ''No API Key - Default Persona''\<rparr>,
      \<lparr>questionnaire = Some (Inr ''Q: who are you?''),
        cache_file = Some (Inr ''No API Key - Default Persona'')\<rparr>)"
  by (simp add: load_and_summarize_def with_api_key_def Let_def)

section \<open>Properties of the request handler\<close>

lemma content_of_turn_Inr:
  "content_of_turn sv t = Inr c \<Longrightarrow>
     crole c = role t \<and>
     (\<exists>p ps q. parts t = p # ps \<and> part_from_text sv (ptext p) = Inr q \<and> cparts c = [q])"
  by (auto simp: content_of_turn_def split: list.splits sum.splits)

lemma build_contents_Inr:
  "build_contents sv ts = Inr cs \<Longrightarrow> list_all2 (\<lambda>t c. content_of_turn sv t = Inr c) ts cs"
  by (induction ts arbitrary: cs) (auto split: sum.splits)

lemma conversation_contents_Inr:
  "conversation_contents sv hist user_text = Inr cs \<Longrightarrow>
     \<exists>cs0 q. cs = cs0 @ [\<lparr>crole = ''user'', cparts = [q]\<rparr>]
            \<and> part_from_text sv (PStr user_text) = Inr q
            \<and> list_all2 (\<lambda>t c. content_of_turn sv t = Inr c) (last_six hist) cs0"
  by (auto simp: conversation_contents_def build_contents_Inr split: sum.splits)

lemma content_of_turn_keeps:
  assumes "keeps_text sv" and "content_of_turn sv t = Inr c"
  shows "c = as_content t"
proof -
  from assms(2) obtain p ps q where p: "parts t = p # ps"
    and q: "part_from_text sv (ptext p) = Inr q" and c: "c = \<lparr>crole = role t, cparts = [q]\<rparr>"
    by (auto simp: content_of_turn_def split: list.splits sum.splits)
  from assms(1) q have "ptext q = ptext p" by (simp add: keeps_text_def)
  then have "q = p" by simp
  with p c show ?thesis by (simp add: as_content_def)
qed

lemma build_contents_keeps:
  "keeps_text sv \<Longrightarrow> build_contents sv ts = Inr cs \<Longrightarrow> cs = map as_content ts"
  by (induction ts arbitrary: cs) (auto split: sum.splits dest: content_of_turn_keeps)

lemma conversation_contents_keeps:
  assumes "keeps_text sv" and "conversation_contents sv hist user_text = Inr cs"
  shows "cs = map as_content (last_six hist) @
              [\<lparr>crole = ''user'', cparts = [\<lparr>ptext = PStr user_text\<rparr>]\<rparr>]"
proof -
  from assms(2) obtain cs0 q where cs: "cs = cs0 @ [\<lparr>crole = ''user'', cparts = [q]\<rparr>]"
    and b: "build_contents sv (last_six hist) = Inr cs0"
    and q: "part_from_text sv (PStr user_text) = Inr q"
    by (auto simp: conversation_contents_def split: sum.splits)
  from assms(1) q have "ptext q = PStr user_text" by (simp add: keeps_text_def)
  then have "q = \<lparr>ptext = PStr user_text\<rparr>" by (cases q) simp
  with cs build_contents_keeps [OF assms(1) b] show ?thesis by simp
qed

text \<open>
  Every entry that \<open>update_history\<close> appends has one part, whatever the two values are, and for
  such an entry \<open>as_content\<close> has the parts of the entry.
\<close>

lemma one_part_update_history:
  "list_all (\<lambda>t. length (parts t) = 1) (history_of sm sid') \<Longrightarrow>
     list_all (\<lambda>t. length (parts t) = 1) (history_of (update_history uid sid u m sm) sid')"
  by (auto simp: history_of_update_history)

lemma as_content_one_part:
  "length (parts t) = 1 \<Longrightarrow> as_content t = \<lparr>crole = role t, cparts = parts t\<rparr>"
  by (simp add: as_content_def)

lemma length_last_six: "length (last_six xs) = min (length xs) 6"
  by (simp add: last_six_def)

lemma suffix_last_six: "suffix (last_six xs) xs"
  by (simp add: last_six_def suffix_drop)

lemma chat_voice_ask_unfold:
  assumes t: "transcribe_audio sv p
                (if truthy (user_name rq) \<or> truthy (user_email rq)
                 then w\<lparr>manager := update_profile (uuid4 sv 0) (session_id rq)
                                      (user_name rq) (user_email rq) (manager w)\<rparr>
                 else w) = (user_text, w2)"
    and g: "get_session (uuid4 sv 1) (session_id rq) (manager w2) = (sess, sm)"
  shows "chat_voice_ask sv pe rq p w =
     (let w3 = w2\<lparr>manager := sm\<rparr>;
          system_instruction =
            \<lparr>who_you_are = summary pe, detailed_profile = raw_text pe,
              speaking_with = (case name (user_profile sess) of
                                 None \<Rightarrow> ''Guest''
                               | Some n \<Rightarrow> if n = [] then ''Guest'' else n)\<rparr>
      in case conversation_contents sv (history sess) user_text of
           Inl e \<Rightarrow> (Inl e, w3)
         | Inr cs \<Rightarrow>
             (case client sv of
                None \<Rightarrow> (Inl AttributeError, w3)
              | Some generate \<Rightarrow>
                  (let w4 = w3\<lparr>calls := calls w3 @ [Generate system_instruction cs]\<rparr>
                   in case generate system_instruction cs of
                        Inl e \<Rightarrow> (Inl e, w4)
                      | Inr raw \<Rightarrow> (Inr (user_text, raw), w4))))"
  using t g by (simp add: chat_voice_ask_def Let_def)

lemma chat_voice_ask_history:
  "history_of (manager (snd (chat_voice_ask sv pe rq p w))) sid = history_of (manager w) sid"
proof -
  define w1 where "w1 = (if truthy (user_name rq) \<or> truthy (user_email rq)
             then w\<lparr>manager := update_profile (uuid4 sv 0) (session_id rq)
                                  (user_name rq) (user_email rq) (manager w)\<rparr>
             else w)"
  obtain user_text w2 where t: "transcribe_audio sv p w1 = (user_text, w2)"
    by (cases "transcribe_audio sv p w1")
  obtain sess sm where g: "get_session (uuid4 sv 1) (session_id rq) (manager w2) = (sess, sm)"
    by (cases "get_session (uuid4 sv 1) (session_id rq) (manager w2)")
  have m2: "manager w2 = manager w1"
    using transcribe_audio_manager [of sv p w1] t by simp
  have h1: "history_of (manager w1) sid = history_of (manager w) sid"
    by (simp add: w1_def history_of_update_profile)
  have h3: "history_of sm sid = history_of (manager w2) sid"
    using history_of_get_session [of "uuid4 sv 1" "session_id rq" "manager w2" sid] g by simp
  have "manager (snd (chat_voice_ask sv pe rq p w)) = sm"
    unfolding chat_voice_ask_unfold [OF t [unfolded w1_def] g]
    by (simp add: Let_def split: sum.splits option.splits)
  with h1 h3 m2 show ?thesis by simp
qed

lemma chat_voice_ask_calls:
  "\<exists>i. calls (snd (chat_voice_ask sv pe rq p w)) =
         calls (snd (transcribe_audio sv p w)) @
           (case conversation_contents sv (history_of (manager w) (session_id rq))
                   (fst (transcribe_audio sv p w)) of
              Inl e \<Rightarrow> []
            | Inr cs \<Rightarrow> (case client sv of None \<Rightarrow> [] | Some generate \<Rightarrow> [Generate i cs]))"
proof -
  define w1 where "w1 = (if truthy (user_name rq) \<or> truthy (user_email rq)
             then w\<lparr>manager := update_profile (uuid4 sv 0) (session_id rq)
                                  (user_name rq) (user_email rq) (manager w)\<rparr>
             else w)"
  obtain user_text w2 where t: "transcribe_audio sv p w1 = (user_text, w2)"
    by (cases "transcribe_audio sv p w1")
  obtain sess sm where g: "get_session (uuid4 sv 1) (session_id rq) (manager w2) = (sess, sm)"
    by (cases "get_session (uuid4 sv 1) (session_id rq) (manager w2)")
  have "fst (transcribe_audio sv p w1) = fst (transcribe_audio sv p w)"
    by (simp only: transcribe_audio_text)
  with t have ut: "fst (transcribe_audio sv p w) = user_text" by simp
  have c1: "calls w1 = calls w" by (simp add: w1_def)
  have "calls (snd (transcribe_audio sv p w1)) = calls (snd (transcribe_audio sv p w))"
    by (simp only: transcribe_audio_calls c1)
  with t have c2: "calls (snd (transcribe_audio sv p w)) = calls w2" by simp
  have m2: "manager w2 = manager w1"
    using transcribe_audio_manager [of sv p w1] t by simp
  have "history sess = history_of (manager w2) (session_id rq)"
    using history_fst_get_session [of "uuid4 sv 1" "session_id rq" "manager w2"] g by simp
  also have "\<dots> = history_of (manager w) (session_id rq)"
    by (simp add: m2 w1_def history_of_update_profile)
  finally have hs: "history_of (manager w) (session_id rq) = history sess" by simp
  show ?thesis
    unfolding chat_voice_ask_unfold [OF t [unfolded w1_def] g] ut c2 hs
    by (auto simp: Let_def split: sum.splits option.splits)
qed

text \<open>
  Claim C2. Whatever the history of the session holds, the handler sends at most one request
  to the reasoning service. A request that it sends carries, in order, one content for each
  of the last \<open>min(n, 6)\<close> entries of the history, the older entries dropped, with the role of the
  entry and the part that the client library makes of the entry's text, followed by the
  transcript as a user turn; where the parts of the library hold the text they are given,
  those contents are the entries themselves. The request is sent whenever there is a client
  and the library accepts the entries and the transcript. The history stored for the session
  is the same after this step as before.
\<close>

theorem chat_voice_context_window:
  "(calls (snd (chat_voice_ask sv pe rq p w)) = calls (snd (transcribe_audio sv p w))
    \<or> (\<exists>i cs0 q.
          calls (snd (chat_voice_ask sv pe rq p w)) =
            calls (snd (transcribe_audio sv p w)) @
              [Generate i (cs0 @ [\<lparr>crole = ''user'', cparts = [q]\<rparr>])]
          \<and> part_from_text sv (PStr (fst (transcribe_audio sv p w))) = Inr q
          \<and> list_all2 (\<lambda>t c. content_of_turn sv t = Inr c)
               (last_six (history_of (manager w) (session_id rq))) cs0))
   \<and> (keeps_text sv \<longrightarrow>
        calls (snd (chat_voice_ask sv pe rq p w)) = calls (snd (transcribe_audio sv p w))
        \<or> (\<exists>i. calls (snd (chat_voice_ask sv pe rq p w)) =
              calls (snd (transcribe_audio sv p w)) @
                [Generate i
                   (map as_content (last_six (history_of (manager w) (session_id rq))) @
                    [\<lparr>crole = ''user'',
                      cparts = [\<lparr>ptext = PStr (fst (transcribe_audio sv p w))\<rparr>]\<rparr>])]))
   \<and> (client sv \<noteq> None
        \<and> (\<exists>cs. conversation_contents sv (history_of (manager w) (session_id rq))
                   (fst (transcribe_audio sv p w)) = Inr cs) \<longrightarrow>
        calls (snd (chat_voice_ask sv pe rq p w)) \<noteq> calls (snd (transcribe_audio sv p w)))
   \<and> length (last_six (history_of (manager w) (session_id rq))) =
       min (length (history_of (manager w) (session_id rq))) 6
   \<and> suffix (last_six (history_of (manager w) (session_id rq)))
       (history_of (manager w) (session_id rq))
   \<and> history_of (manager (snd (chat_voice_ask sv pe rq p w))) (session_id rq) =
       history_of (manager w) (session_id rq)"
proof -
  let ?H = "history_of (manager w) (session_id rq)"
  let ?u = "fst (transcribe_audio sv p w)"
  let ?base = "calls (snd (transcribe_audio sv p w))"
  let ?after = "calls (snd (chat_voice_ask sv pe rq p w))"
  obtain i where a: "?after = ?base @
      (case conversation_contents sv ?H ?u of
         Inl e \<Rightarrow> []
       | Inr cs \<Rightarrow> (case client sv of None \<Rightarrow> [] | Some generate \<Rightarrow> [Generate i cs]))"
    using chat_voice_ask_calls by blast
  have general: "?after = ?base
    \<or> (\<exists>i cs0 q. ?after = ?base @ [Generate i (cs0 @ [\<lparr>crole = ''user'', cparts = [q]\<rparr>])]
          \<and> part_from_text sv (PStr ?u) = Inr q
          \<and> list_all2 (\<lambda>t c. content_of_turn sv t = Inr c) (last_six ?H) cs0)"
  proof (cases "conversation_contents sv ?H ?u")
    case (Inl e)
    with a show ?thesis by simp
  next
    case (Inr cs)
    show ?thesis
    proof (cases "client sv")
      case None
      with a Inr show ?thesis by simp
    next
      case (Some generate)
      from conversation_contents_Inr [OF Inr] obtain cs0 q
        where "cs = cs0 @ [\<lparr>crole = ''user'', cparts = [q]\<rparr>]"
          and "part_from_text sv (PStr ?u) = Inr q"
          and "list_all2 (\<lambda>t c. content_of_turn sv t = Inr c) (last_six ?H) cs0"
        by blast
      with a Inr Some show ?thesis by auto
    qed
  qed
  have exact: "?after = ?base
    \<or> (\<exists>i. ?after = ?base @
          [Generate i (map as_content (last_six ?H) @
                       [\<lparr>crole = ''user'', cparts = [\<lparr>ptext = PStr ?u\<rparr>]\<rparr>])])"
    if k: "keeps_text sv"
  proof (cases "conversation_contents sv ?H ?u")
    case (Inl e)
    with a show ?thesis by simp
  next
    case (Inr cs)
    show ?thesis
    proof (cases "client sv")
      case None
      with a Inr show ?thesis by simp
    next
      case (Some generate)
      from conversation_contents_keeps [OF k Inr] a Inr Some show ?thesis by auto
    qed
  qed
  have sent: "?after \<noteq> ?base"
    if "client sv \<noteq> None \<and> (\<exists>cs. conversation_contents sv ?H ?u = Inr cs)"
    using that a by auto
  from general exact sent length_last_six [of ?H] suffix_last_six [of ?H]
    chat_voice_ask_history [of sv pe rq p w "session_id rq"]
  show ?thesis by blast
qed

text \<open>
  With four exchanges in the history, one of them with \<open>None\<close> as its summary, the request
  carries the last three of them and the transcript.
\<close>

theorem chat_voice_context_window_witness:
  "keeps_text studio
   \<and> client studio \<noteq> None
   \<and> (\<exists>i. calls (snd (chat_voice_ask studio niharika upload ''/tmp/tmpk3x9.webm'' busy)) =
         [Generate i
            [\<lparr>crole = ''user'', cparts = [\<lparr>ptext = PStr ''q2''\<rparr>]\<rparr>,
             \<lparr>crole = ''model'', cparts = [\<lparr>ptext = PStr ''a2''\<rparr>]\<rparr>,
             \<lparr>crole = ''user'', cparts = [\<lparr>ptext = PNone\<rparr>]\<rparr>,
             \<lparr>crole = ''model'', cparts = [\<lparr>ptext = PStr ''a3''\<rparr>]\<rparr>,
             \<lparr>crole = ''user'', cparts = [\<lparr>ptext = PStr ''q4''\<rparr>]\<rparr>,
             \<lparr>crole = ''model'', cparts = [\<lparr>ptext = PStr ''a4''\<rparr>]\<rparr>,
             \<lparr>crole = ''user'', cparts = [\<lparr>ptext = PStr ''what do you do''\<rparr>]\<rparr>]])
   \<and> history_of (manager (snd (chat_voice_ask studio niharika upload ''/tmp/tmpk3x9.webm'' busy)))
        (session_id upload) = four_exchanges"
proof -
  have keeps: "keeps_text studio"
    by (auto simp: keeps_text_def studio_def split: pyval.splits)
  have cl: "client studio \<noteq> None"
    by (simp add: studio_def)
  have h: "history_of (manager busy) (session_id upload) = four_exchanges"
    by (simp add: history_of_def busy_def upload_def)
  have six: "last_six four_exchanges =
      [\<lparr>role = ''user'', parts = [\<lparr>ptext = PStr ''q2''\<rparr>]\<rparr>,
       \<lparr>role = ''model'', parts = [\<lparr>ptext = PStr ''a2''\<rparr>]\<rparr>,
       \<lparr>role = ''user'', parts = [\<lparr>ptext = PNone\<rparr>]\<rparr>,
       \<lparr>role = ''model'', parts = [\<lparr>ptext = PStr ''a3''\<rparr>]\<rparr>,
       \<lparr>role = ''user'', parts = [\<lparr>ptext = PStr ''q4''\<rparr>]\<rparr>,
       \<lparr>role = ''model'', parts = [\<lparr>ptext = PStr ''a4''\<rparr>]\<rparr>]"
    by (simp add: last_six_def four_exchanges_def)
  have t: "fst (transcribe_audio studio ''/tmp/tmpk3x9.webm'' busy) = ''what do you do''"
    "calls (snd (transcribe_audio studio ''/tmp/tmpk3x9.webm'' busy)) = []"
    by (simp_all add: transcribe_audio_def studio_def busy_def)
  have built: "\<exists>cs. conversation_contents studio
                    (history_of (manager busy) (session_id upload))
                    (fst (transcribe_audio studio ''/tmp/tmpk3x9.webm'' busy)) = Inr cs"
    by (simp add: h t conversation_contents_def six content_of_turn_def studio_def)
  note window = chat_voice_context_window [of studio niharika upload "''/tmp/tmpk3x9.webm''" busy]
  from window cl built
  have sent: "calls (snd (chat_voice_ask studio niharika upload ''/tmp/tmpk3x9.webm'' busy)) \<noteq>
              calls (snd (transcribe_audio studio ''/tmp/tmpk3x9.webm'' busy))"
    by blast
  from window keeps sent
  have "\<exists>i. calls (snd (chat_voice_ask studio niharika upload ''/tmp/tmpk3x9.webm'' busy)) =
          calls (snd (transcribe_audio studio ''/tmp/tmpk3x9.webm'' busy)) @
            [Generate i
               (map as_content (last_six (history_of (manager busy) (session_id upload))) @
                [\<lparr>crole = ''user'',
                  cparts = [\<lparr>ptext = PStr (fst (transcribe_audio studio ''/tmp/tmpk3x9.webm'' busy))\<rparr>]\<rparr>])]"
    by blast
  then have request: "\<exists>i. calls (snd (chat_voice_ask studio niharika upload ''/tmp/tmpk3x9.webm'' busy)) =
         [Generate i
            [\<lparr>crole = ''user'', cparts = [\<lparr>ptext = PStr ''q2''\<rparr>]\<rparr>,
             \<lparr>crole = ''model'', cparts = [\<lparr>ptext = PStr ''a2''\<rparr>]\<rparr>,
             \<lparr>crole = ''user'', cparts = [\<lparr>ptext = PNone\<rparr>]\<rparr>,
             \<lparr>crole = ''model'', cparts = [\<lparr>ptext = PStr ''a3''\<rparr>]\<rparr>,
             \<lparr>crole = ''user'', cparts = [\<lparr>ptext = PStr ''q4''\<rparr>]\<rparr>,
             \<lparr>crole = ''model'', cparts = [\<lparr>ptext = PStr ''a4''\<rparr>]\<rparr>,
             \<lparr>crole = ''user'', cparts = [\<lparr>ptext = PStr ''what do you do''\<rparr>]\<rparr>]]"
    by (simp add: h six t as_content_def)
  from window have "history_of (manager (snd (chat_voice_ask studio niharika upload
        ''/tmp/tmpk3x9.webm'' busy))) (session_id upload) = four_exchanges"
    by (simp add: h)
  with keeps cl request show ?thesis by blast
qed

lemma stdout_accepts_narrow: "\<not> stdout_rejects (PStr s)"
  by (simp add: stdout_rejects_def)

lemma chat_voice_reply_parsed:
  assumes "parse_reply sv user_text raw = Inr (us, rt)" and "\<not> stdout_rejects rt"
  shows "manager (snd (chat_voice_reply sv rq p user_text raw w)) =
           update_history (uuid4 sv 2) (session_id rq) us rt (manager w)"
    and "calls (snd (chat_voice_reply sv rq p user_text raw w)) =
           calls w @ [Speak rt VOICE (''resp_'' @ uuid4 sv 3 @ ''.mp3'')]"
    and "fst (chat_voice_reply sv rq p user_text raw w) =
           (case speak sv rt (''resp_'' @ uuid4 sv 3 @ ''.mp3'') of
              Some e \<Rightarrow> Inl e
            | None \<Rightarrow> Inr (FileResponse (''resp_'' @ uuid4 sv 3 @ ''.mp3'') ''audio/mpeg'' ''response.mp3''))"
  using assms
  by (simp_all add: chat_voice_reply_def Let_def split: option.splits)

lemma chat_voice_reply_unprintable:
  "parse_reply sv user_text raw = Inr (us, rt) \<Longrightarrow> stdout_rejects rt \<Longrightarrow>
     chat_voice_reply sv rq p user_text raw w = (Inl (OtherError ''UnicodeEncodeError''), w)"
  by (simp add: chat_voice_reply_def)

lemma parse_reply_undecodable:
  "json_loads sv reply = Inl JSONDecodeError \<Longrightarrow>
     parse_reply sv user_text (Some reply) =
       Inr (PStr user_text, PStr (py_strip (sub_fences reply)))"
  by (simp add: parse_reply_def)

lemma parse_reply_structured:
  "json_loads sv reply = Inr (PDict items) \<Longrightarrow>
   map_of items ''user_summary'' = Some us \<Longrightarrow>
   map_of items ''response_text'' = Some rt \<Longrightarrow>
     parse_reply sv user_text (Some reply) = Inr (us, rt)"
  by (simp add: parse_reply_def)


text \<open>
  A reply that decodes to a list: \<open>data.get\<close> raises \<open>AttributeError\<close>, which the inner \<open>try\<close>
  does not catch.
\<close>

lemma parse_reply_list_raises:
  "parse_reply studio ''what do you do'' (Some ''[1, 2]'') = Inl AttributeError"
  by (simp add: parse_reply_def studio_def loads_table_def reply_ok_def reply_surrogate_def reply_null_def)

text \<open>
  Claim C3, as stated, fails. The reply \<open>{}\<close> is a string that does not have the two fields of
  the expected shape. It decodes, so the text of the answer is the fixed default of
  \<open>data.get\<close> and not the reply with its markers removed.
\<close>

theorem parse_reply_empty_object_counterexample:
  "json_loads studio ''{}'' = Inr (PDict [])
   \<and> parse_reply studio ''what do you do'' (Some ''{}'') =
       Inr (PStr ''what do you do'', PStr ''I'm not sure I understood.'')
   \<and> py_strip (sub_fences ''{}'') = ''{}''
   \<and> PStr ''I'm not sure I understood.'' \<noteq> PStr (py_strip (sub_fences ''{}''))"
  by (simp add: parse_reply_def studio_def loads_table_def reply_ok_def reply_surrogate_def reply_null_def py_strip_def py_isspace_def)

text \<open>
  Claim C3, amended. For every reply on which \<open>json.loads\<close> raises \<open>json.JSONDecodeError\<close>, the
  summary is the transcript and the text of the answer is the reply after \<open>re.sub\<close> and
  \<open>strip\<close>: no fence is left in it and no whitespace surrounds it. That pair is appended to the
  history and that text is what is given to the speech synthesis, so the request does not stop
  at the parsing.
\<close>

theorem parse_reply_fallback:
  assumes "json_loads sv reply = Inl JSONDecodeError"
  shows "parse_reply sv user_text (Some reply) =
           Inr (PStr user_text, PStr (py_strip (sub_fences reply)))
     \<and> manager (snd (chat_voice_reply sv rq p user_text (Some reply) w)) =
           update_history (uuid4 sv 2) (session_id rq)
             (PStr user_text) (PStr (py_strip (sub_fences reply))) (manager w)
     \<and> calls (snd (chat_voice_reply sv rq p user_text (Some reply) w)) =
           calls w @ [Speak (PStr (py_strip (sub_fences reply))) VOICE
                        (''resp_'' @ uuid4 sv 3 @ ''.mp3'')]
     \<and> \<not> sublist ''```'' (py_strip (sub_fences reply))
     \<and> (py_strip (sub_fences reply) = []
          \<or> (\<not> py_isspace (hd (py_strip (sub_fences reply)))
              \<and> \<not> py_isspace (last (py_strip (sub_fences reply)))))"
  using chat_voice_reply_parsed [OF parse_reply_undecodable [OF assms] stdout_accepts_narrow]
    parse_reply_undecodable [OF assms] stripped_no_fence py_strip_ends
  by simp

text \<open>The fenced text of the specification, which is not JSON.\<close>

theorem parse_reply_fallback_witness:
  "json_loads studio reply_fenced = Inl JSONDecodeError
   \<and> parse_reply studio ''what do you do'' (Some reply_fenced) =
       Inr (PStr ''what do you do'', PStr ''{bad}'')
   \<and> history_of (manager (snd (chat_voice_reply studio upload ''/tmp/tmpk3x9.webm''
         ''what do you do'' (Some reply_fenced) idle))) ''s1'' =
       [\<lparr>role = ''user'', parts = [\<lparr>ptext = PStr ''what do you do''\<rparr>]\<rparr>,
        \<lparr>role = ''model'', parts = [\<lparr>ptext = PStr ''{bad}''\<rparr>]\<rparr>]
   \<and> calls (snd (chat_voice_reply studio upload ''/tmp/tmpk3x9.webm''
         ''what do you do'' (Some reply_fenced) idle)) =
       [Speak (PStr ''{bad}'') ''en-IN-NeerjaNeural'' ''resp_aaaa.mp3'']"
proof -
  have undecodable: "json_loads studio reply_fenced = Inl JSONDecodeError"
    by (simp add: studio_def loads_table_def reply_fenced_def reply_ok_def reply_surrogate_def reply_null_def)
  have stripped: "py_strip (sub_fences reply_fenced) = ''{bad}''"
    by (simp add: reply_fenced_def py_strip_def py_isspace_def)
  have out: "uuid4 studio 3 = ''aaaa''"
    by (simp add: studio_def eval_nat_numeral)
  have sid: "session_id upload = ''s1''" "history_of (manager idle) ''s1'' = []" "calls idle = []"
    by (simp_all add: upload_def idle_def history_of_def)
  show ?thesis
    using undecodable
      parse_reply_fallback [OF undecodable, of "''what do you do''" upload "''/tmp/tmpk3x9.webm''" idle]
    by (simp add: stripped out sid history_of_update_history VOICE_def)
qed

text \<open>
  When the reply decodes to an object that has both fields and the answer can be printed, the
  handler appends the summary as the user entry and the answer as the model entry (the
  transcript is not stored), and the speech synthesis is called with exactly that answer.
\<close>

lemma chat_voice_reply_commits:
  assumes "json_loads sv reply = Inr (PDict items)"
    and "map_of items ''user_summary'' = Some us"
    and "map_of items ''response_text'' = Some rt"
    and "\<not> stdout_rejects rt"
  shows "manager (snd (chat_voice_reply sv rq p user_text (Some reply) w)) =
           update_history (uuid4 sv 2) (session_id rq) us rt (manager w)
     \<and> history_of (manager (snd (chat_voice_reply sv rq p user_text (Some reply) w))) (session_id rq) =
           history_of (manager w) (session_id rq) @
             [\<lparr>role = ''user'', parts = [\<lparr>ptext = us\<rparr>]\<rparr>,
              \<lparr>role = ''model'', parts = [\<lparr>ptext = rt\<rparr>]\<rparr>]
     \<and> calls (snd (chat_voice_reply sv rq p user_text (Some reply) w)) =
           calls w @ [Speak rt VOICE (''resp_'' @ uuid4 sv 3 @ ''.mp3'')]"
  using chat_voice_reply_parsed [OF parse_reply_structured [OF assms(1-3)] assms(4)]
  by (simp add: history_of_update_history)

text \<open>The reply of the specification.\<close>

lemma chat_voice_reply_commits_example:
  "history_of (manager (snd (chat_voice_reply studio upload ''/tmp/tmpk3x9.webm''
         ''what do you do'' (Some reply_ok) idle))) ''s1'' =
       [\<lparr>role = ''user'', parts = [\<lparr>ptext = PStr ''asked about X''\<rparr>]\<rparr>,
        \<lparr>role = ''model'', parts = [\<lparr>ptext = PStr ''I focus on Y''\<rparr>]\<rparr>]
   \<and> calls (snd (chat_voice_reply studio upload ''/tmp/tmpk3x9.webm''
         ''what do you do'' (Some reply_ok) idle)) =
       [Speak (PStr ''I focus on Y'') ''en-IN-NeerjaNeural'' ''resp_aaaa.mp3'']"
proof -
  have decoded: "json_loads studio reply_ok =
     Inr (PDict [(''user_summary'', PStr ''asked about X''), (''response_text'', PStr ''I focus on Y'')])"
    by (simp add: studio_def loads_table_def)
  have us: "map_of [(''user_summary'', PStr ''asked about X''), (''response_text'', PStr ''I focus on Y'')]
              ''user_summary'' = Some (PStr ''asked about X'')"
    by simp
  have rt: "map_of [(''user_summary'', PStr ''asked about X''), (''response_text'', PStr ''I focus on Y'')]
              ''response_text'' = Some (PStr ''I focus on Y'')"
    by simp
  have out: "uuid4 studio 3 = ''aaaa''"
    by (simp add: studio_def eval_nat_numeral)
  have sid: "session_id upload = ''s1''" "history_of (manager idle) ''s1'' = []" "calls idle = []"
    by (simp_all add: upload_def idle_def history_of_def)
  show ?thesis
    using chat_voice_reply_commits [OF decoded us rt stdout_accepts_narrow,
        of upload "''/tmp/tmpk3x9.webm''" "''what do you do''" idle]
    by (simp add: out sid history_of_update_history VOICE_def)
qed

text \<open>
  A value that is not a string is stored as it is: after the reply with the \<open>null\<close> summary the
  user entry of the session holds \<open>None\<close>.
\<close>

lemma chat_voice_stores_any_value:
  "history_of (manager (snd (chat_voice null_summary niharika upload idle))) ''s1'' =
     [\<lparr>role = ''user'', parts = [\<lparr>ptext = PNone\<rparr>]\<rparr>,
      \<lparr>role = ''model'', parts = [\<lparr>ptext = PStr ''ok''\<rparr>]\<rparr>]"
  by (simp add: chat_voice_def chat_voice_body_def chat_voice_ingest_def chat_voice_ask_def
      chat_voice_reply_def transcribe_audio_def conversation_contents_def last_six_def
      parse_reply_def stdout_rejects_def update_profile_def update_history_def get_session_def
      history_of_def null_summary_def studio_def niharika_def upload_def idle_def
      loads_table_def reply_ok_def reply_surrogate_def reply_null_def Let_def VOICE_def)

text \<open>
  Claim C6 at the reply whose \<open>response_text\<close> is the escape of a lone surrogate. The reply has
  the expected shape and \<open>json.loads\<close> decodes it. The print of the answer raises
  \<open>UnicodeEncodeError\<close> before \<open>update_history\<close> is reached: nothing is appended to the history,
  the speech synthesis is called for the apology only, and the handler returns the apology.
\<close>

theorem chat_voice_unprintable_answer:
  "json_loads surrogate_answer reply_surrogate =
     Inr (PDict [(''user_summary'', PStr ''a''), (''response_text'', PUni [55296])])
   \<and> fst (chat_voice_body surrogate_answer niharika upload idle) =
       Inl (OtherError ''UnicodeEncodeError'')
   \<and> history_of (manager (snd (chat_voice surrogate_answer niharika upload idle))) ''s1'' = []
   \<and> calls (snd (chat_voice surrogate_answer niharika upload idle)) =
       [Generate \<lparr>who_you_are = ''=== CORE IDENTITY ==='', detailed_profile = ''Q and A'',
                  speaking_with = ''Alice''\<rparr>
          [\<lparr>crole = ''user'', cparts = [\<lparr>ptext = PStr ''what do you do''\<rparr>]\<rparr>],
        Speak (PStr apology) VOICE ''/tmp/tmpq7w2.mp3'']
   \<and> fst (chat_voice surrogate_answer niharika upload idle) =
       Inr (FileResponse ''/tmp/tmpq7w2.mp3'' ''audio/mpeg'' ''error.mp3'')"
  by (simp add: chat_voice_def chat_voice_body_def chat_voice_ingest_def chat_voice_ask_def
      chat_voice_reply_def chat_voice_except_def generate_error_audio_def transcribe_audio_def
      conversation_contents_def last_six_def parse_reply_def stdout_rejects_def is_surrogate_def
      update_profile_def get_session_def remove_file_def history_of_def
      surrogate_answer_def studio_def niharika_def upload_def idle_def
      loads_table_def reply_ok_def reply_surrogate_def Let_def)

lemma chat_voice_ingest_path:
  "chat_voice_ingest sv rq w = (Inr tmp, w1) \<Longrightarrow>
     \<exists>stem. tmp = stem @ ''.wav'' \<or> tmp = stem @ ''.webm''"
  by (auto simp: chat_voice_ingest_def Let_def split: sum.splits option.splits if_splits)

lemma chat_voice_ingest_tasks: "tasks (snd (chat_voice_ingest sv rq w)) = tasks w"
  by (simp add: chat_voice_ingest_def Let_def split: sum.splits option.splits)

lemma chat_voice_ask_tasks: "tasks (snd (chat_voice_ask sv pe rq p w)) = tasks w"
proof -
  define w1 where "w1 = (if truthy (user_name rq) \<or> truthy (user_email rq)
             then w\<lparr>manager := update_profile (uuid4 sv 0) (session_id rq)
                                  (user_name rq) (user_email rq) (manager w)\<rparr>
             else w)"
  obtain user_text w2 where t: "transcribe_audio sv p w1 = (user_text, w2)"
    by (cases "transcribe_audio sv p w1")
  obtain sess sm where g: "get_session (uuid4 sv 1) (session_id rq) (manager w2) = (sess, sm)"
    by (cases "get_session (uuid4 sv 1) (session_id rq) (manager w2)")
  have "tasks w1 = tasks w" by (simp add: w1_def)
  moreover have "tasks w2 = tasks w1"
    using transcribe_audio_tasks [of sv p w1] t by simp
  moreover have "tasks (snd (chat_voice_ask sv pe rq p w)) = tasks w2"
    unfolding chat_voice_ask_unfold [OF t [unfolded w1_def] g]
    by (simp add: Let_def split: sum.splits option.splits)
  ultimately show ?thesis by simp
qed

lemma chat_voice_reply_raised_tasks:
  "fst (chat_voice_reply sv rq p user_text raw w) = Inl e \<Longrightarrow>
     tasks (snd (chat_voice_reply sv rq p user_text raw w)) = tasks w"
  by (auto simp: chat_voice_reply_def Let_def split: sum.splits option.splits prod.splits)

lemma chat_voice_body_raised_tasks:
  assumes "fst (chat_voice_body sv pe rq w) = Inl e"
  shows "tasks (snd (snd (chat_voice_body sv pe rq w))) = tasks w"
proof -
  obtain r1 w1 where i: "chat_voice_ingest sv rq w = (r1, w1)"
    by (cases "chat_voice_ingest sv rq w")
  have t1: "tasks w1 = tasks w"
    using chat_voice_ingest_tasks [of sv rq w] i by simp
  show ?thesis
  proof (cases r1)
    case (Inl e1)
    with i t1 show ?thesis by (simp add: chat_voice_body_def)
  next
    case (Inr tmp)
    obtain r2 w2 where a: "chat_voice_ask sv pe rq tmp w1 = (r2, w2)"
      by (cases "chat_voice_ask sv pe rq tmp w1")
    have t2: "tasks w2 = tasks w1"
      using chat_voice_ask_tasks [of sv pe rq tmp w1] a by simp
    show ?thesis
    proof (cases r2)
      case (Inl e2)
      with i Inr a t1 t2 show ?thesis by (simp add: chat_voice_body_def)
    next
      case inner: (Inr ur)
      obtain user_text raw where ur: "ur = (user_text, raw)" by (cases ur)
      obtain r3 w3 where r: "chat_voice_reply sv rq tmp user_text raw w2 = (r3, w3)"
        by (cases "chat_voice_reply sv rq tmp user_text raw w2")
      have b: "chat_voice_body sv pe rq w = (r3, Some tmp, w3)"
        using i Inr a inner ur r by (simp add: chat_voice_body_def)
      with assms have "r3 = Inl e" by simp
      with r have "tasks w3 = tasks w2"
        using chat_voice_reply_raised_tasks [of sv rq tmp user_text raw w2 e] by simp
      with b t1 t2 show ?thesis by simp
    qed
  qed
qed

lemma chat_voice_body_path:
  assumes "fst (snd (chat_voice_body sv pe rq w)) = Some p"
  shows "\<exists>stem. p = stem @ ''.wav'' \<or> p = stem @ ''.webm''"
proof -
  obtain r1 w1 where i: "chat_voice_ingest sv rq w = (r1, w1)"
    by (cases "chat_voice_ingest sv rq w")
  show ?thesis
  proof (cases r1)
    case (Inl e1)
    with i assms show ?thesis by (simp add: chat_voice_body_def)
  next
    case (Inr tmp)
    with i assms have "p = tmp"
      by (auto simp: chat_voice_body_def split: prod.splits sum.splits)
    with i Inr show ?thesis using chat_voice_ingest_path by blast
  qed
qed

lemma remove_file_gone: "p \<notin> remove_file sv p fs \<or> unlink_fails sv p"
  by (simp add: remove_file_def)

lemma generate_error_audio_files:
  "files (snd (generate_error_audio sv w)) =
     (case error_temp sv of Inl e \<Rightarrow> files w | Inr stem \<Rightarrow> insert (stem @ ''.mp3'') (files w))"
  by (simp add: generate_error_audio_def Let_def split: sum.splits option.splits)

lemma chat_voice_except_files:
  "files (snd (chat_voice_except sv (Some p) w)) =
     (case error_temp sv of
        Inl e \<Rightarrow> (if p = [] then files w else remove_file sv p (files w))
      | Inr stem \<Rightarrow> insert (stem @ ''.mp3'') (if p = [] then files w else remove_file sv p (files w)))"
  by (simp add: chat_voice_except_def generate_error_audio_def Let_def
      split: sum.splits option.splits prod.splits)

lemma chat_voice_except_removes:
  assumes "p = stem @ ''.wav'' \<or> p = stem @ ''.webm''"
  shows "p \<notin> files (snd (chat_voice_except sv (Some p) w)) \<or> unlink_fails sv p"
proof -
  from assms have ne: "p \<noteq> []" by auto
  from assms have l: "last p = CHR ''v'' \<or> last p = CHR ''m''" by auto
  have "p \<noteq> q @ ''.mp3''" for q
  proof
    assume "p = q @ ''.mp3''"
    then have "last p = CHR ''3''" by simp
    with l show False by simp
  qed
  then show ?thesis
    using remove_file_gone [of p sv "files w"] ne
    by (auto simp: chat_voice_except_files split: sum.splits)
qed

lemma chat_voice_except_result:
  "fst (chat_voice_except sv tmp w) =
     (case error_temp sv of
        Inl e \<Rightarrow> Inl e
      | Inr stem \<Rightarrow>
          (case speak_apology sv apology (stem @ ''.mp3'') of
             Some e \<Rightarrow> Inl e
           | None \<Rightarrow> Inr (FileResponse (stem @ ''.mp3'') ''audio/mpeg'' ''error.mp3'')))"
  by (simp add: chat_voice_except_def generate_error_audio_def Let_def
      split: sum.splits option.splits prod.splits)

lemma chat_voice_except_tasks:
  "tasks (snd (chat_voice_except sv tmp w)) =
     (case error_temp sv of
        Inl e \<Rightarrow> tasks w
      | Inr stem \<Rightarrow>
          (case speak_apology sv apology (stem @ ''.mp3'') of
             Some e \<Rightarrow> tasks w
           | None \<Rightarrow> tasks w @ [stem @ ''.mp3'']))"
  by (simp add: chat_voice_except_def generate_error_audio_def Let_def
      split: sum.splits option.splits prod.splits)

lemma chat_voice_raised:
  assumes "fst (chat_voice_body sv pe rq w) = Inl e"
  shows "chat_voice sv pe rq w =
           chat_voice_except sv (fst (snd (chat_voice_body sv pe rq w)))
             (snd (snd (chat_voice_body sv pe rq w)))"
  using assms by (cases "chat_voice_body sv pe rq w") (auto simp: chat_voice_def)

text \<open>
  Claim C1, as stated, fails. The speech service is unreachable: the synthesis of the answer
  raises inside the \<open>try\<close>, the synthesis of the apology raises inside the \<open>except\<close>, and the
  exception leaves the handler, which the framework answers with status 500.
\<close>

theorem chat_voice_apology_fails_counterexample:
  "fst (chat_voice_body tts_down niharika upload idle) = Inl (OtherError ''NoAudioReceived'')
   \<and> fst (chat_voice tts_down niharika upload idle) = Inl (OtherError ''NoAudioReceived'')
   \<and> status_code (fst (chat_voice tts_down niharika upload idle)) = 500"
  by (simp add: chat_voice_def chat_voice_body_def chat_voice_ingest_def chat_voice_ask_def
      chat_voice_reply_def chat_voice_except_def generate_error_audio_def transcribe_audio_def
      conversation_contents_def last_six_def parse_reply_def update_profile_def update_history_def
      get_session_def status_code_def tts_down_def studio_def niharika_def upload_def idle_def
      loads_table_def reply_ok_def reply_surrogate_def reply_null_def stdout_rejects_def
      Let_def apology_def VOICE_def)

text \<open>
  Claim C1, amended. Let an exception be raised inside the \<open>try\<close> of the handler. If
  \<open>temp_input_path\<close> had been assigned, \<open>remove_file\<close> is applied to it: afterwards the file is
  not on disk, unless its unlink fails. If the temporary file of the apology is created and the
  apology is synthesised, the handler returns that file as \<open>error.mp3\<close> with media type
  \<open>audio/mpeg\<close> and status 200, and queues its removal. If either of these two steps raises,
  that exception leaves the handler and the status is 500.
\<close>

theorem chat_voice_exception_handling:
  assumes "fst (chat_voice_body sv pe rq w) = Inl e"
  shows "(\<forall>p. fst (snd (chat_voice_body sv pe rq w)) = Some p \<longrightarrow>
            p \<notin> files (snd (chat_voice sv pe rq w)) \<or> unlink_fails sv p)
     \<and> (\<forall>stem. error_temp sv = Inr stem \<and> speak_apology sv apology (stem @ ''.mp3'') = None \<longrightarrow>
            fst (chat_voice sv pe rq w) =
              Inr (FileResponse (stem @ ''.mp3'') ''audio/mpeg'' ''error.mp3'')
            \<and> status_code (fst (chat_voice sv pe rq w)) = 200
            \<and> tasks (snd (chat_voice sv pe rq w)) = tasks w @ [stem @ ''.mp3''])
     \<and> (\<forall>stem e'. error_temp sv = Inl e'
                   \<or> (error_temp sv = Inr stem \<and> speak_apology sv apology (stem @ ''.mp3'') = Some e') \<longrightarrow>
            fst (chat_voice sv pe rq w) = Inl e'
            \<and> status_code (fst (chat_voice sv pe rq w)) = 500)"
proof -
  note cv = chat_voice_raised [OF assms]
  have a: "p \<notin> files (snd (chat_voice sv pe rq w)) \<or> unlink_fails sv p"
    if "fst (snd (chat_voice_body sv pe rq w)) = Some p" for p
  proof -
    from that obtain stem where "p = stem @ ''.wav'' \<or> p = stem @ ''.webm''"
      using chat_voice_body_path by blast
    then show ?thesis
      unfolding cv that by (rule chat_voice_except_removes)
  qed
  have b: "fst (chat_voice sv pe rq w) =
              Inr (FileResponse (stem @ ''.mp3'') ''audio/mpeg'' ''error.mp3'')
            \<and> status_code (fst (chat_voice sv pe rq w)) = 200
            \<and> tasks (snd (chat_voice sv pe rq w)) = tasks w @ [stem @ ''.mp3'']"
    if "error_temp sv = Inr stem \<and> speak_apology sv apology (stem @ ''.mp3'') = None" for stem
    using that chat_voice_body_raised_tasks [OF assms]
    by (simp add: cv chat_voice_except_result chat_voice_except_tasks status_code_def)
  have c: "fst (chat_voice sv pe rq w) = Inl e'
            \<and> status_code (fst (chat_voice sv pe rq w)) = 500"
    if "error_temp sv = Inl e'
          \<or> (error_temp sv = Inr stem \<and> speak_apology sv apology (stem @ ''.mp3'') = Some e')"
    for stem e'
    using that
    by (auto simp: cv chat_voice_except_result status_code_def)
  from a b c show ?thesis by blast
qed

text \<open>Without a client the reasoning call raises, and the apology is returned.\<close>

theorem chat_voice_exception_handling_witness:
  "fst (chat_voice_body no_client niharika upload idle) = Inl AttributeError
   \<and> fst (snd (chat_voice_body no_client niharika upload idle)) = Some ''/tmp/tmpk3x9.webm''
   \<and> ''/tmp/tmpk3x9.webm'' \<notin> files (snd (chat_voice no_client niharika upload idle))
   \<and> fst (chat_voice no_client niharika upload idle) =
       Inr (FileResponse ''/tmp/tmpq7w2.mp3'' ''audio/mpeg'' ''error.mp3'')
   \<and> status_code (fst (chat_voice no_client niharika upload idle)) = 200
   \<and> tasks (snd (chat_voice no_client niharika upload idle)) = [''/tmp/tmpq7w2.mp3'']"
proof -
  have body: "chat_voice_body no_client niharika upload idle =
      (Inl AttributeError, Some ''/tmp/tmpk3x9.webm'',
       snd (snd (chat_voice_body no_client niharika upload idle)))"
    by (simp add: chat_voice_body_def chat_voice_ingest_def chat_voice_ask_def
      transcribe_audio_def conversation_contents_def last_six_def update_profile_def
      get_session_def no_client_def studio_def niharika_def upload_def idle_def Let_def)
  then have raised: "fst (chat_voice_body no_client niharika upload idle) = Inl AttributeError"
    and path: "fst (snd (chat_voice_body no_client niharika upload idle)) = Some ''/tmp/tmpk3x9.webm''"
    by (metis fst_conv, metis fst_conv snd_conv)
  have env: "error_temp no_client = Inr ''/tmp/tmpq7w2''"
    "speak_apology no_client apology (''/tmp/tmpq7w2'' @ ''.mp3'') = None"
    "\<not> unlink_fails no_client ''/tmp/tmpk3x9.webm''"
    "tasks idle = []"
    by (simp_all add: no_client_def studio_def idle_def)
  show ?thesis
    using raised path env chat_voice_exception_handling [OF raised]
    by auto
qed

text \<open>
  When the copy of the upload fails, the temporary file exists but \<open>temp_input_path\<close> is still
  \<open>None\<close>: the handler returns the apology and the file stays on disk.
\<close>

lemma chat_voice_copy_failure_leaves_file:
  "fst (snd (chat_voice_body copy_fails niharika upload idle)) = None
   \<and> fst (chat_voice copy_fails niharika upload idle) =
       Inr (FileResponse ''/tmp/tmpq7w2.mp3'' ''audio/mpeg'' ''error.mp3'')
   \<and> ''/tmp/tmpk3x9.webm'' \<in> files (snd (chat_voice copy_fails niharika upload idle))"
  by (simp add: chat_voice_def chat_voice_body_def chat_voice_ingest_def chat_voice_except_def
      generate_error_audio_def copy_fails_def studio_def upload_def idle_def Let_def)

end
